theory Spec2Isabelle
  imports Complex_Main
begin

section \<open>The game engine of src/hooks/useGameEngine.ts\<close>

text \<open>
  The engine is a React hook: its state lives in \<open>useState\<close> cells and \<open>useRef\<close> cells,
  and its callbacks update that state. The embedding passes the state explicitly, as one
  record \<open>Game\<close>, and applies the queued state updaters in the order the source
  issues them. JavaScript numbers that hold counts, scores and clock readings are
  \<open>int\<close>; coordinates, velocities and the time scale are \<open>real\<close> (rounding of
  doubles is not modelled). The one place where the source can divide by zero is
  \<open>lineCircleIntersection\<close>; there the quotient is a \<open>jsnum\<close>, with the values
  IEEE 754 gives for a zero divisor written out. An exception raised by
  \<open>localStorage.setItem\<close> is the value \<open>Inl StorageError\<close> of the function that
  lets it escape.

  Particles and score popups are cosmetic collections that no engine function reads
  back; they are left out, together with the random draws that only feed them.
\<close>

subsection \<open>JavaScript numbers at a division\<close>

datatype jsnum = Fin real | PosInf | NegInf | NaN

text \<open>\<open>n / d\<close> on doubles with finite operands: \<open>0 / 0\<close> is NaN, and a non-zero
  numerator over (positive) zero is an infinity with the numerator's sign.\<close>

definition js_div :: "real \<Rightarrow> real \<Rightarrow> jsnum" where
  "js_div n d =
     (if d \<noteq> 0 then Fin (n / d)
      else if n = 0 then NaN
      else if 0 < n then PosInf else NegInf)"

text \<open>\<open>t >= b\<close> and \<open>t <= b\<close> for a finite \<open>b\<close>: every comparison with NaN is false.\<close>

fun js_ge :: "jsnum \<Rightarrow> real \<Rightarrow> bool" where
  "js_ge (Fin t) b = (b \<le> t)"
| "js_ge PosInf b = True"
| "js_ge NegInf b = False"
| "js_ge NaN b = False"

fun js_le :: "jsnum \<Rightarrow> real \<Rightarrow> bool" where
  "js_le (Fin t) b = (t \<le> b)"
| "js_le PosInf b = False"
| "js_le NegInf b = True"
| "js_le NaN b = False"

text \<open>\<open>Math.atan2(y, x)\<close> on finite operands.\<close>

definition js_atan2 :: "real \<Rightarrow> real \<Rightarrow> real" where
  "js_atan2 y x =
     (if 0 < x then arctan (y / x)
      else if x < 0 then (if 0 \<le> y then arctan (y / x) + pi else arctan (y / x) - pi)
      else if 0 < y then pi / 2
      else if y < 0 then - (pi / 2)
      else 0)"

subsection \<open>Segment against circle (lines 40-64)\<close>

definition lineCircleIntersection ::
  "real \<Rightarrow> real \<Rightarrow> real \<Rightarrow> real \<Rightarrow> real \<Rightarrow> real \<Rightarrow> real \<Rightarrow> bool" where
  "lineCircleIntersection x1 y1 x2 y2 cx cy r =
     (let dx = x2 - x1;
          dy = y2 - y1;
          fx = x1 - cx;
          fy = y1 - cy;
          a = dx * dx + dy * dy;
          b = 2 * (fx * dx + fy * dy);
          c = (fx * fx + fy * fy) - r * r;
          discriminant = b * b - 4 * a * c
      in if discriminant < 0 then False
         else
           (let root = sqrt discriminant;
                t1 = js_div (- b - root) (2 * a);
                t2 = js_div (- b + root) (2 * a)
            in (js_ge t1 0 \<and> js_le t1 1) \<or> (js_ge t2 0 \<and> js_le t2 1)))"

subsection \<open>Data model (types/game.ts)\<close>

datatype FruitType = Apple | Orange | Watermelon | Banana | Pineapple | Strawberry

datatype SpecialFruitType = Frenzy | Freeze

datatype GameState = Menu | Playing | Gameover

datatype Half = LeftHalf | RightHalf

text \<open>The fields every entity has. The source's \<open>id\<close>, \<open>x\<close> and \<open>y\<close> are
  \<open>ident\<close>, \<open>posX\<close> and \<open>posY\<close> here.\<close>

record Entity =
  ident :: string
  posX :: real
  posY :: real
  velocityX :: real
  velocityY :: real
  rotation :: real
  rotationSpeed :: real
  radius :: real

record Bomb = Entity +
  sliced :: bool

record Fruit = Bomb +
  ftype :: FruitType

record SpecialFruit = Entity +
  specialType :: SpecialFruitType

record SlicedFruit = Entity +
  sftype :: FruitType
  half :: Half
  sliceAngle :: real
  createdAt :: int

record BladePoint =
  ptX :: real
  ptY :: real
  timestamp :: int

record GameStats =
  score :: int
  lives :: int
  combo :: int
  maxCombo :: int
  fruitsSliced :: int
  highScore :: int

fun FRUIT_POINTS :: "FruitType \<Rightarrow> int" where
  "FRUIT_POINTS Apple = 1"
| "FRUIT_POINTS Orange = 1"
| "FRUIT_POINTS Watermelon = 2"
| "FRUIT_POINTS Banana = 1"
| "FRUIT_POINTS Pineapple = 2"
| "FRUIT_POINTS Strawberry = 1"

definition FRUIT_TYPES :: "FruitType list" where
  "FRUIT_TYPES = [Apple, Orange, Watermelon, Banana, Pineapple, Strawberry]"

definition GRAVITY :: real where "GRAVITY = 0.4"
definition INITIAL_LIVES :: int where "INITIAL_LIVES = 3"
definition SPAWN_INTERVAL_BASE :: int where "SPAWN_INTERVAL_BASE = 1500"
definition SPAWN_INTERVAL_MIN :: int where "SPAWN_INTERVAL_MIN = 600"
definition BOMB_CHANCE_BASE :: real where "BOMB_CHANCE_BASE = 0.15"
definition BOMB_CHANCE_MAX :: real where "BOMB_CHANCE_MAX = 0.35"
definition SLICED_FRUIT_LIFETIME :: int where "SLICED_FRUIT_LIFETIME = 1500"
definition COMBO_WINDOW :: int where "COMBO_WINDOW = 800"
definition SPECIAL_FRUIT_CHANCE :: real where "SPECIAL_FRUIT_CHANCE = 0.08"
definition SPECIAL_FRUIT_MIN_WAVE :: int where "SPECIAL_FRUIT_MIN_WAVE = 1"
definition GUARANTEED_SPECIAL_INTERVAL :: int where "GUARANTEED_SPECIAL_INTERVAL = 15"
definition CRITICAL_THROW_CHANCE :: real where "CRITICAL_THROW_CHANCE = 0.12"

subsection \<open>The environment: canvas, randomness, storage, timers\<close>

text \<open>\<open>Math.random()\<close> and \<open>generateId()\<close> are read from two sequences the
  environment fixes; the state counts how many values of each were taken.
  \<open>Math.random()\<close> is in \<open>[0, 1)\<close>.\<close>

record Env =
  canvasWidth :: real
  canvasHeight :: real
  random :: "nat \<Rightarrow> real"
  generated :: "nat \<Rightarrow> string"

datatype error = StorageError

text \<open>\<open>localStorage\<close> under the key \<open>fruitNinjaHighScore\<close>. \<open>setItem\<close> raises
  when the storage is unavailable or full; \<open>setItemLog\<close> records the values of the
  calls that returned, oldest first.\<close>

record LocalStorage =
  item :: "int option"
  setItemLog :: "int list"
  unavailable :: bool

definition setItem :: "LocalStorage \<Rightarrow> int \<Rightarrow> error + LocalStorage" where
  "setItem st v =
     (if unavailable st then Inl StorageError
      else Inr (st\<lparr>item := Some v, setItemLog := setItemLog st @ [v]\<rparr>))"

text \<open>What a pending \<open>setTimeout\<close> will run. \<open>FrenzySpawnCb g\<close> is the callback of
  \<open>activateFrenzy\<close>, which tests the \<open>gameState\<close> its closure captured, \<open>g\<close>.\<close>

datatype Callback =
    SpawnFruitCb
  | FrenzySpawnCb GameState
  | EffectEndCb
  | BombFlashOffCb
  | CriticalFlashOffCb
  | WaveAnnouncementOffCb

record Timer =
  handle :: nat
  delay :: int
  callback :: Callback

text \<open>The hook's state. \<open>gameOverCalls\<close> is not a cell of the source: it counts
  how many times \<open>setGameState('gameover')\<close> has been called.\<close>

record Game =
  gameState :: GameState
  stats :: GameStats
  fruits :: "Fruit list"
  bombs :: "Bomb list"
  specialFruits :: "SpecialFruit list"
  slicedFruits :: "SlicedFruit list"
  bombFlash :: bool
  activeEffect :: "SpecialFruitType option"
  timeScale :: real
  lastSpawnRef :: int
  lastComboTimeRef :: int
  waveRef :: int
  effectTimeoutRef :: "nat option"
  spawnsSinceSpecialRef :: int
  currentWave :: int
  showWaveAnnouncement :: bool
  criticalFlash :: bool
  localStorage :: LocalStorage
  timers :: "Timer list"
  nextHandle :: nat
  randomCalls :: nat
  idCalls :: nat
  gameOverCalls :: nat

definition draw :: "Env \<Rightarrow> Game \<Rightarrow> real \<times> Game" where
  "draw env s = (random env (randomCalls s), s\<lparr>randomCalls := Suc (randomCalls s)\<rparr>)"

definition generateId :: "Env \<Rightarrow> Game \<Rightarrow> string \<times> Game" where
  "generateId env s = (generated env (idCalls s), s\<lparr>idCalls := Suc (idCalls s)\<rparr>)"

text \<open>\<open>setTimeout(cb, ms)\<close> returns the handle \<open>nextHandle s\<close>.\<close>

definition setTimeout :: "Callback \<Rightarrow> int \<Rightarrow> Game \<Rightarrow> Game" where
  "setTimeout cb ms s =
     s\<lparr>timers := timers s @ [\<lparr>handle = nextHandle s, delay = ms, callback = cb\<rparr>],
       nextHandle := Suc (nextHandle s)\<rparr>"

definition clearTimeout :: "nat \<Rightarrow> Game \<Rightarrow> Game" where
  "clearTimeout h s = s\<lparr>timers := filter (\<lambda>t. handle t \<noteq> h) (timers s)\<rparr>"

fun forEachE :: "('a \<Rightarrow> 's \<Rightarrow> error + 's) \<Rightarrow> 'a list \<Rightarrow> 's \<Rightarrow> error + 's" where
  "forEachE f [] s = Inr s"
| "forEachE f (x # xs) s = (case f x s of Inl e \<Rightarrow> Inl e | Inr s' \<Rightarrow> forEachE f xs s')"

subsection \<open>Spawning (lines 96-157)\<close>

definition spawnFruit :: "Env \<Rightarrow> Game \<Rightarrow> Game" where
  "spawnFruit env s0 =
     (let (r1, s1) = draw env s0;
          type = FRUIT_TYPES ! nat \<lfloor>r1 * 6\<rfloor>;
          (r2, s2) = draw env s1;
          spawnX = r2 * (canvasWidth env - 100) + 50;
          (r3, s3) = draw env s2;
          targetX = canvasWidth env / 2 + (r3 - 0.5) * canvasWidth env * 0.5;
          (r4, s4) = draw env s3;
          vX = (targetX - spawnX) * 0.02 + (r4 - 0.5) * 2;
          (newId, s5) = generateId env s4;
          (r5, s6) = draw env s5;
          (r6, s7) = draw env s6;
          (r7, s8) = draw env s7;
          fruit = \<lparr>ident = newId, posX = spawnX, posY = canvasHeight env + 50,
                   velocityX = vX,
                   velocityY = - (14 + r5 * 6 + real_of_int (waveRef s8) * 0.5),
                   rotation = r6 * 360, rotationSpeed = (r7 - 0.5) * 8,
                   radius = (if type = Watermelon \<or> type = Pineapple then 50 else 35),
                   sliced = False, ftype = type\<rparr>
      in s8\<lparr>fruits := fruits s8 @ [fruit]\<rparr>)"

definition spawnBomb :: "Env \<Rightarrow> Game \<Rightarrow> Game" where
  "spawnBomb env s0 =
     (let (r1, s1) = draw env s0;
          spawnX = r1 * (canvasWidth env - 100) + 50;
          (r2, s2) = draw env s1;
          targetX = canvasWidth env / 2 + (r2 - 0.5) * canvasWidth env * 0.5;
          (r3, s3) = draw env s2;
          vX = (targetX - spawnX) * 0.02 + (r3 - 0.5) * 2;
          (newId, s4) = generateId env s3;
          (r4, s5) = draw env s4;
          (r5, s6) = draw env s5;
          (r6, s7) = draw env s6;
          bomb = \<lparr>ident = newId, posX = spawnX, posY = canvasHeight env + 50,
                  velocityX = vX, velocityY = - (14 + r4 * 5),
                  rotation = r5 * 360, rotationSpeed = (r6 - 0.5) * 6,
                  radius = 40, sliced = False\<rparr>
      in s7\<lparr>bombs := bombs s7 @ [bomb]\<rparr>)"

definition spawnSpecialFruit :: "Env \<Rightarrow> SpecialFruitType \<Rightarrow> Game \<Rightarrow> Game" where
  "spawnSpecialFruit env type s0 =
     (let (r1, s1) = draw env s0;
          spawnX = r1 * (canvasWidth env - 100) + 50;
          (r2, s2) = draw env s1;
          targetX = canvasWidth env / 2 + (r2 - 0.5) * canvasWidth env * 0.3;
          vX = (targetX - spawnX) * 0.02;
          (newId, s3) = generateId env s2;
          (r3, s4) = draw env s3;
          (r4, s5) = draw env s4;
          (r5, s6) = draw env s5;
          special = \<lparr>ident = newId, posX = spawnX, posY = canvasHeight env + 50,
                     velocityX = vX, velocityY = - (14 + r3 * 4),
                     rotation = r4 * 360, rotationSpeed = (r5 - 0.5) * 6,
                     radius = 45, specialType = type\<rparr>
      in s6\<lparr>specialFruits := specialFruits s6 @ [special]\<rparr>)"

subsection \<open>Timed effects (lines 159-199)\<close>

text \<open>\<open>gs\<close> is the \<open>gameState\<close> of the render that created the callback: the sixteen
  deferred spawns test that captured value.\<close>

definition activateFrenzy :: "GameState \<Rightarrow> Game \<Rightarrow> Game" where
  "activateFrenzy gs s0 =
     (let s1 = (case effectTimeoutRef s0 of Some h \<Rightarrow> clearTimeout h s0 | None \<Rightarrow> s0);
          s2 = s1\<lparr>activeEffect := Some Frenzy, timeScale := 0.3\<rparr>;
          s3 = foldl (\<lambda>s i. setTimeout (FrenzySpawnCb gs) (int i * 80) s) s2 [0..<16]
      in setTimeout EffectEndCb 4000 (s3\<lparr>effectTimeoutRef := Some (nextHandle s3)\<rparr>))"

definition activateFreeze :: "Game \<Rightarrow> Game" where
  "activateFreeze s0 =
     (let s1 = (case effectTimeoutRef s0 of Some h \<Rightarrow> clearTimeout h s0 | None \<Rightarrow> s0);
          s2 = s1\<lparr>activeEffect := Some Freeze, timeScale := 0.2\<rparr>
      in setTimeout EffectEndCb 3000 (s2\<lparr>effectTimeoutRef := Some (nextHandle s2)\<rparr>))"

subsection \<open>Slicing (lines 227-379)\<close>

text \<open>The two halves; \<open>now\<close> is the reading of \<open>Date.now()\<close>.\<close>

definition createSlicedFruit :: "Env \<Rightarrow> Fruit \<Rightarrow> real \<Rightarrow> int \<Rightarrow> Game \<Rightarrow> Game" where
  "createSlicedFruit env fruit angle now s0 =
     (let (idL, s1) = generateId env s0;
          leftHalf = \<lparr>ident = idL, posX = posX fruit, posY = posY fruit,
                      velocityX = velocityX fruit - 3, velocityY = velocityY fruit - 2,
                      rotation = rotation fruit, rotationSpeed = - 8,
                      radius = radius fruit, sftype = ftype fruit, half = LeftHalf,
                      sliceAngle = angle, createdAt = now\<rparr>;
          (idR, s2) = generateId env s1;
          rightHalf = \<lparr>ident = idR, posX = posX fruit, posY = posY fruit,
                       velocityX = velocityX fruit + 3, velocityY = velocityY fruit - 2,
                       rotation = rotation fruit, rotationSpeed = 8,
                       radius = radius fruit, sftype = ftype fruit, half = RightHalf,
                       sliceAngle = angle, createdAt = now\<rparr>
      in s2\<lparr>slicedFruits := slicedFruits s2 @ [leftHalf, rightHalf]\<rparr>)"

definition sliceSpecialFruit :: "GameState \<Rightarrow> SpecialFruit \<Rightarrow> Game \<Rightarrow> Game" where
  "sliceSpecialFruit gs special s0 =
     (let s1 = s0\<lparr>stats := (stats s0)\<lparr>score := score (stats s0) + 50\<rparr>\<rparr>;
          s2 = s1\<lparr>specialFruits :=
                    filter (\<lambda>x. ident x \<noteq> ident special) (specialFruits s1)\<rparr>
      in if specialType special = Frenzy then activateFrenzy gs s2 else activateFreeze s2)"

definition sliceFruit :: "Env \<Rightarrow> Fruit \<Rightarrow> real \<Rightarrow> int \<Rightarrow> Game \<Rightarrow> error + Game" where
  "sliceFruit env fruit angle now s0 =
     (let timeSinceLastSlice = now - lastComboTimeRef s0;
          isPartOfCombo = (timeSinceLastSlice < COMBO_WINDOW \<and> lastComboTimeRef s0 > 0);
          s1 = s0\<lparr>lastComboTimeRef := now\<rparr>;
          basePoints = FRUIT_POINTS (ftype fruit);
          prev = stats s1;
          newCombo = (if isPartOfCombo then combo prev + 1 else 1);
          comboMultiplier = min newCombo 8;
          points = basePoints * comboMultiplier;
          newScore = score prev + points;
          newHighScore = max newScore (highScore prev)
      in case (if newHighScore > highScore prev
               then setItem (localStorage s1) newHighScore
               else Inr (localStorage s1)) of
           Inl e \<Rightarrow> Inl e
         | Inr st \<Rightarrow>
             (let s2 = s1\<lparr>localStorage := st,
                         stats := prev\<lparr>score := newScore, combo := newCombo,
                                      maxCombo := max newCombo (maxCombo prev),
                                      fruitsSliced := fruitsSliced prev + 1,
                                      highScore := newHighScore\<rparr>\<rparr>;
                  s3 = createSlicedFruit env fruit angle now s2
              in Inr (s3\<lparr>fruits := filter (\<lambda>f. ident f \<noteq> ident fruit) (fruits s3)\<rparr>)))"

definition sliceBomb :: "Game \<Rightarrow> error + Game" where
  "sliceBomb s0 =
     (let s1 = setTimeout BombFlashOffCb 300 (s0\<lparr>bombFlash := True\<rparr>);
          prev = stats s1;
          newHighScore = max (score prev) (highScore prev)
      in case (if newHighScore > highScore prev
               then setItem (localStorage s1) newHighScore
               else Inr (localStorage s1)) of
           Inl e \<Rightarrow> Inl e
         | Inr st \<Rightarrow>
             Inr (s1\<lparr>localStorage := st,
                     stats := prev\<lparr>lives := 0, highScore := newHighScore\<rparr>,
                     gameState := Gameover,
                     gameOverCalls := Suc (gameOverCalls s1)\<rparr>))"

subsection \<open>Collisions (lines 381-413)\<close>

text \<open>The callbacks of one frame are closures over the state of the render that made
  them. \<open>snap\<close> is that state: the loops run over its \<open>fruits\<close>,
  \<open>specialFruits\<close> and \<open>bombs\<close> and read its \<open>activeEffect\<close>, while the updates
  they issue apply to the current state \<open>s\<close>.\<close>

text \<open>The bodies of the three \<open>forEach\<close> loops of one segment \<open>p1\<close>, \<open>p2\<close>
  (lines 391-395, 398-402, 406-410).\<close>

definition hitFruit ::
  "Env \<Rightarrow> BladePoint \<Rightarrow> BladePoint \<Rightarrow> real \<Rightarrow> int \<Rightarrow> Fruit \<Rightarrow> Game \<Rightarrow> error + Game" where
  "hitFruit env p1 p2 angle now fruit s =
     (if \<not> sliced fruit \<and>
         lineCircleIntersection (ptX p1) (ptY p1) (ptX p2) (ptY p2)
           (posX fruit) (posY fruit) (radius fruit * 1.15)
      then sliceFruit env fruit angle now s else Inr s)"

definition hitSpecial ::
  "GameState \<Rightarrow> BladePoint \<Rightarrow> BladePoint \<Rightarrow> Game \<Rightarrow> SpecialFruit \<Rightarrow> Game" where
  "hitSpecial gs p1 p2 s special =
     (if lineCircleIntersection (ptX p1) (ptY p1) (ptX p2) (ptY p2)
           (posX special) (posY special) (radius special * 1.2)
      then sliceSpecialFruit gs special s else s)"

definition hitBomb :: "BladePoint \<Rightarrow> BladePoint \<Rightarrow> Bomb \<Rightarrow> Game \<Rightarrow> error + Game" where
  "hitBomb p1 p2 bomb s =
     (if \<not> sliced bomb \<and>
         lineCircleIntersection (ptX p1) (ptY p1) (ptX p2) (ptY p2)
           (posX bomb) (posY bomb) (radius bomb)
      then sliceBomb s else Inr s)"

definition checkSegment ::
  "Env \<Rightarrow> Game \<Rightarrow> BladePoint \<Rightarrow> BladePoint \<Rightarrow> int \<Rightarrow> Game \<Rightarrow> error + Game" where
  "checkSegment env snap p1 p2 now s0 =
     (let angle = js_atan2 (ptY p2 - ptY p1) (ptX p2 - ptX p1)
      in case forEachE (hitFruit env p1 p2 angle now) (fruits snap) s0 of
           Inl e \<Rightarrow> Inl e
         | Inr s1 \<Rightarrow>
             (let s2 = foldl (hitSpecial (gameState snap) p1 p2) s1 (specialFruits snap)
              in if activeEffect snap \<noteq> Some Frenzy
                 then forEachE (hitBomb p1 p2) (bombs snap) s2
                 else Inr s2))"

text \<open>The segments \<open>i\<close>, \<open>i + 1\<close> for \<open>i\<close> from \<open>max 0 (length - 5)\<close> up to
  \<open>length - 2\<close> (subtraction on \<open>nat\<close> stops at 0).\<close>

definition checkCollisions ::
  "Env \<Rightarrow> Game \<Rightarrow> BladePoint list \<Rightarrow> bool \<Rightarrow> int \<Rightarrow> Game \<Rightarrow> error + Game" where
  "checkCollisions env snap trail isSwiping now s0 =
     (if \<not> isSwiping \<or> length trail < 2 then Inr s0
      else forEachE (\<lambda>i s. checkSegment env snap (trail ! i) (trail ! (i + 1)) now s)
             [length trail - 5 ..< length trail - 1] s0)"

subsection \<open>Physics and spawning per frame (lines 415-566)\<close>

definition advance :: "real \<Rightarrow> real \<Rightarrow> 'a Entity_scheme \<Rightarrow> 'a Entity_scheme" where
  "advance ts g e =
     e\<lparr>posX := posX e + velocityX e * ts,
       posY := posY e + velocityY e * ts,
       velocityY := velocityY e + g,
       rotation := rotation e + rotationSpeed e * ts\<rparr>"

text \<open>The \<open>forEach\<close> of lines 424-439: the fruits kept, and how many fell past
  \<open>bound\<close>.\<close>

fun stepFruits :: "real \<Rightarrow> real \<Rightarrow> real \<Rightarrow> Fruit list \<Rightarrow> Fruit list \<times> int" where
  "stepFruits ts g bound [] = ([], 0)"
| "stepFruits ts g bound (fruit # rest) =
     (let newFruit = advance ts g fruit;
          (updated, missedCount) = stepFruits ts g bound rest
      in if posY newFruit > bound then (updated, missedCount + 1)
         else (newFruit # updated, missedCount))"

text \<open>The \<open>setStats\<close> updater of lines 442-451.\<close>

definition loseLives :: "int \<Rightarrow> Game \<Rightarrow> error + Game" where
  "loseLives missedCount s =
     (let prev = stats s;
          newLives = lives prev - missedCount
      in if newLives \<le> 0
         then (let newHighScore = max (score prev) (highScore prev)
               in case setItem (localStorage s) newHighScore of
                    Inl e \<Rightarrow> Inl e
                  | Inr st \<Rightarrow>
                      Inr (s\<lparr>localStorage := st, gameState := Gameover,
                             gameOverCalls := Suc (gameOverCalls s),
                             stats := prev\<lparr>lives := 0, highScore := newHighScore\<rparr>\<rparr>))
         else Inr (s\<lparr>stats := prev\<lparr>lives := newLives\<rparr>\<rparr>))"

text \<open>Lines 511-565, in the four parts of the source. The deferred spawns are queued
  as \<open>SpawnFruitCb\<close>: their callback is \<open>() => spawnFruit()\<close>.\<close>

definition criticalThrow :: "Env \<Rightarrow> Game \<Rightarrow> Game" where
  "criticalThrow env s0 =
     (let (r1, s1) = draw env s0;
          criticalCount = 4 + \<lfloor>r1 * 2\<rfloor>;
          (r2, s2) = draw env s1;
          s3 = foldl (\<lambda>s i. setTimeout SpawnFruitCb (int i * 60) s) s2 [0..<nat criticalCount]
      in setTimeout CriticalFlashOffCb 400 (s3\<lparr>criticalFlash := True\<rparr>))"

definition regularSpawn :: "Env \<Rightarrow> Game \<Rightarrow> Game" where
  "regularSpawn env s0 =
     (let (r1, s1) = draw env s0;
          fruitCount = 1 + \<lfloor>r1 * real_of_int (min 3 (waveRef s1))\<rfloor>;
          s2 = foldl (\<lambda>s i. setTimeout SpawnFruitCb (int i * 100) s) s1 [0..<nat fruitCount];
          bombChance = min BOMB_CHANCE_MAX (BOMB_CHANCE_BASE + real_of_int (waveRef s2) * 0.03);
          (r2, s3) = draw env s2
      in if r2 < bombChance then spawnBomb env s3 else s3)"

definition specialSpawn :: "Env \<Rightarrow> Game \<Rightarrow> Game" where
  "specialSpawn env s0 =
     (let (rolled, s1) =
            (if waveRef s0 \<ge> SPECIAL_FRUIT_MIN_WAVE
             then (let (r, t) = draw env s0 in (r < SPECIAL_FRUIT_CHANCE, t))
             else (False, s0));
          shouldSpawnSpecial =
            (rolled \<or> spawnsSinceSpecialRef s1 \<ge> GUARANTEED_SPECIAL_INTERVAL)
      in if shouldSpawnSpecial
         then (spawnSpecialFruit env Freeze s1)\<lparr>spawnsSinceSpecialRef := 0\<rparr>
         else s1)"

definition waveUpdate :: "Game \<Rightarrow> Game \<Rightarrow> Game" where
  "waveUpdate snap s0 =
     (let newWave = fruitsSliced (stats snap) div 10 + 1
      in if newWave > waveRef s0
         then setTimeout WaveAnnouncementOffCb 2000
                (s0\<lparr>waveRef := newWave, currentWave := newWave,
                    showWaveAnnouncement := True\<rparr>)
         else s0)"

definition spawnTick :: "Env \<Rightarrow> Game \<Rightarrow> int \<Rightarrow> Game \<Rightarrow> Game" where
  "spawnTick env snap now s0 =
     (if activeEffect snap \<noteq> Some Frenzy then
        (let spawnInterval = max SPAWN_INTERVAL_MIN (SPAWN_INTERVAL_BASE - waveRef s0 * 100)
         in if now - lastSpawnRef s0 > spawnInterval then
              (let s1 = s0\<lparr>lastSpawnRef := now,
                          spawnsSinceSpecialRef := spawnsSinceSpecialRef s0 + 1\<rparr>;
                   (rc, s2) = draw env s1;
                   s3 = (if rc < CRITICAL_THROW_CHANCE then criticalThrow env s2
                         else regularSpawn env s2);
                   s4 = specialSpawn env s3
               in waveUpdate snap s4)
            else s0)
      else s0)"

definition updatePhysics :: "Env \<Rightarrow> Game \<Rightarrow> int \<Rightarrow> Game \<Rightarrow> error + Game" where
  "updatePhysics env snap now s0 =
     (let ts = timeScale snap;
          adjustedGravity = GRAVITY * ts;
          bound = canvasHeight env + 100;
          (updated, missedCount) = stepFruits ts adjustedGravity bound (fruits s0)
      in case (if missedCount > 0 then loseLives missedCount s0 else Inr s0) of
           Inl e \<Rightarrow> Inl e
         | Inr s1 \<Rightarrow>
             Inr (spawnTick env snap now
                   (s1\<lparr>fruits := updated,
                       bombs := filter (\<lambda>bomb. posY bomb < bound)
                                  (map (advance ts adjustedGravity) (bombs s1)),
                       specialFruits := filter (\<lambda>special. posY special < bound)
                                  (map (advance ts adjustedGravity) (specialFruits s1)),
                       slicedFruits := filter (\<lambda>sf. now - createdAt sf < SLICED_FRUIT_LIFETIME)
                                  (map (advance ts adjustedGravity) (slicedFruits s1))\<rparr>)))"

subsection \<open>Starting, leaving, and the frame loop\<close>

definition startGame :: "Game \<Rightarrow> Game" where
  "startGame s0 =
     (let s1 = (case effectTimeoutRef s0 of Some h \<Rightarrow> clearTimeout h s0 | None \<Rightarrow> s0)
      in s1\<lparr>activeEffect := None, timeScale := 1, gameState := Playing,
            stats := \<lparr>score = 0, lives = INITIAL_LIVES, combo = 0, maxCombo = 0,
                      fruitsSliced = 0, highScore = highScore (stats s1)\<rparr>,
            fruits := [], bombs := [], specialFruits := [], slicedFruits := [],
            lastSpawnRef := 0, lastComboTimeRef := 0, waveRef := 1,
            spawnsSinceSpecialRef := 0, currentWave := 1,
            showWaveAnnouncement := False, criticalFlash := False\<rparr>)"

definition returnToMenu :: "Game \<Rightarrow> Game" where
  "returnToMenu s0 =
     (let s1 = (case effectTimeoutRef s0 of Some h \<Rightarrow> clearTimeout h s0 | None \<Rightarrow> s0)
      in s1\<lparr>activeEffect := None, timeScale := 1, gameState := Menu,
            fruits := [], bombs := [], specialFruits := [], slicedFruits := []\<rparr>)"

text \<open>The state of the first render (lines 67-94): the high score is what the storage
  holds, 0 when it holds nothing.\<close>

definition initialGame :: "LocalStorage \<Rightarrow> Game" where
  "initialGame st =
     \<lparr>gameState = Menu,
      stats = \<lparr>score = 0, lives = INITIAL_LIVES, combo = 0, maxCombo = 0, fruitsSliced = 0,
               highScore = (case item st of None \<Rightarrow> 0 | Some v \<Rightarrow> v)\<rparr>,
      fruits = [], bombs = [], specialFruits = [], slicedFruits = [],
      bombFlash = False, activeEffect = None, timeScale = 1,
      lastSpawnRef = 0, lastComboTimeRef = 0, waveRef = 1, effectTimeoutRef = None,
      spawnsSinceSpecialRef = 0, currentWave = 1, showWaveAnnouncement = False,
      criticalFlash = False, localStorage = st, timers = [], nextHandle = 1,
      randomCalls = 0, idCalls = 0, gameOverCalls = 0\<rparr>"

text \<open>A pending timer fires: it leaves the queue and its callback runs on the state
  of that moment.\<close>

fun runCallback :: "Env \<Rightarrow> Callback \<Rightarrow> Game \<Rightarrow> Game" where
  "runCallback env SpawnFruitCb s = spawnFruit env s"
| "runCallback env (FrenzySpawnCb g) s = (if g = Playing then spawnFruit env s else s)"
| "runCallback env EffectEndCb s = s\<lparr>activeEffect := None, timeScale := 1\<rparr>"
| "runCallback env BombFlashOffCb s = s\<lparr>bombFlash := False\<rparr>"
| "runCallback env CriticalFlashOffCb s = s\<lparr>criticalFlash := False\<rparr>"
| "runCallback env WaveAnnouncementOffCb s = s\<lparr>showWaveAnnouncement := False\<rparr>"

definition fireTimer :: "Env \<Rightarrow> nat \<Rightarrow> Game \<Rightarrow> Game" where
  "fireTimer env h s =
     (case find (\<lambda>t. handle t = h) (timers s) of
        None \<Rightarrow> s
      | Some t \<Rightarrow> runCallback env (callback t) (clearTimeout h s))"

text \<open>One frame of the loop in FruitNinjaGame: \<open>checkCollisions\<close>, then
  \<open>updatePhysics\<close>, both closures of the same render, only while playing.\<close>

record Frame =
  trail :: "BladePoint list"
  isSwiping :: bool
  clock :: int

definition gameLoop :: "Env \<Rightarrow> Frame \<Rightarrow> Game \<Rightarrow> error + Game" where
  "gameLoop env fr s =
     (if gameState s = Playing
      then (case checkCollisions env s (trail fr) (isSwiping fr) (clock fr) s of
              Inl e \<Rightarrow> Inl e
            | Inr s1 \<Rightarrow> updatePhysics env s (clock fr) s1)
      else Inr s)"

subsection \<open>The older engine's storage write (js/game.js, lines 314-320)\<close>

text \<open>\<open>saveBestScore\<close> wraps the write in \<open>try\<close>/\<open>catch\<close>: a failure leaves the
  storage as it was and nothing is raised.\<close>

definition saveBestScore :: "int \<Rightarrow> LocalStorage \<Rightarrow> LocalStorage" where
  "saveBestScore bestScore st =
     (case setItem st bestScore of Inl e \<Rightarrow> st | Inr st' \<Rightarrow> st')"

subsection \<open>Runs, counts and reachable states\<close>

text \<open>A slice as \<open>sliceFruit\<close> receives it: the fruit, the swipe angle, and the
  clock reading of that call. \<open>sliceFruits\<close> makes the calls one after the other.\<close>

record Slice =
  target :: Fruit
  swipeAngle :: real
  moment :: int

definition sliceFruits :: "Env \<Rightarrow> Slice list \<Rightarrow> Game \<Rightarrow> error + Game" where
  "sliceFruits env = forEachE (\<lambda>sl. sliceFruit env (target sl) (swipeAngle sl) (moment sl))"

text \<open>How many fruits of \<open>s\<close> the step of \<open>updatePhysics\<close> carries past the lower
  bound, which is what the \<open>forEach\<close> of lines 424-439 counts.\<close>

definition missedCount :: "Env \<Rightarrow> Game \<Rightarrow> Game \<Rightarrow> int" where
  "missedCount env snap s =
     int (length (filter
       (\<lambda>fruit. posY (advance (timeScale snap) (GRAVITY * timeScale snap) fruit)
                   > canvasHeight env + 100)
       (fruits s)))"

text \<open>The parts of the state that spawning and timers never touch.\<close>

definition sameCore :: "Game \<Rightarrow> Game \<Rightarrow> bool" where
  "sameCore s s' =
     (stats s' = stats s \<and> gameState s' = gameState s \<and>
      localStorage s' = localStorage s \<and> fruits s' = fruits s \<and>
      effectTimeoutRef s' = effectTimeoutRef s \<and>
      gameOverCalls s' = gameOverCalls s)"

text \<open>The states the hook can be in: the first render, then any interleaving of the
  exposed callbacks, frames of the loop that return, and pending timers firing.\<close>

inductive reachable :: "Env \<Rightarrow> Game \<Rightarrow> bool" for env :: Env where
  first_render: "reachable env (initialGame st)"
| started: "reachable env s \<Longrightarrow> reachable env (startGame s)"
| left: "reachable env s \<Longrightarrow> reachable env (returnToMenu s)"
| frame: "reachable env s \<Longrightarrow> gameLoop env fr s = Inr s' \<Longrightarrow> reachable env s'"
| timer: "reachable env s \<Longrightarrow> reachable env (fireTimer env h s)"

definition livesOk :: "Game \<Rightarrow> bool" where
  "livesOk s = (0 \<le> lives (stats s) \<and> (lives (stats s) = 0 \<longrightarrow> gameState s \<noteq> Playing))"




subsection \<open>Concrete inputs\<close>

text \<open>An 800 by 600 canvas on which \<open>Math.random()\<close> always returns 0, an empty
  storage that accepts writes, and the game started on it.\<close>

definition env0 :: Env where
  "env0 = \<lparr>canvasWidth = 800, canvasHeight = 600, random = (\<lambda>n. 0),
            generated = (\<lambda>n. replicate (Suc n) CHR ''i'')\<rparr>"

definition store0 :: LocalStorage where
  "store0 = \<lparr>item = None, setItemLog = [], unavailable = False\<rparr>"

definition game0 :: Game where
  "game0 = startGame (initialGame store0)"

text \<open>A rising apple at the origin; three slices of it 200 ms apart.\<close>

definition apple :: Fruit where
  "apple = \<lparr>ident = ''a'', posX = 0, posY = 0, velocityX = 0, velocityY = - 10,
             rotation = 0, rotationSpeed = 0, radius = 35, sliced = False, ftype = Apple\<rparr>"

definition slices0 :: "Slice list" where
  "slices0 = [\<lparr>target = apple, swipeAngle = 0, moment = 1000\<rparr>,
              \<lparr>target = apple, swipeAngle = 0, moment = 1200\<rparr>,
              \<lparr>target = apple, swipeAngle = 0, moment = 1400\<rparr>]"

text \<open>One apple in play, and a swipe of three points that passes through it: both
  segments cross the enlarged hitbox of radius \<open>35 * 1.15\<close>.\<close>

definition oneApple :: Game where
  "oneApple = game0\<lparr>fruits := [apple]\<rparr>"

definition swipe3 :: "BladePoint list" where
  "swipe3 = [\<lparr>ptX = - 100, ptY = 0, timestamp = 980\<rparr>,
             \<lparr>ptX = 0, ptY = 0, timestamp = 990\<rparr>,
             \<lparr>ptX = 100, ptY = 0, timestamp = 1000\<rparr>]"

text \<open>A fruit already below the lower bound of the canvas (700) and still falling, and
  games in which such fruits are about to be missed.\<close>

definition fallen :: Fruit where
  "fallen = apple\<lparr>posY := 800, velocityY := 10\<rparr>"

definition oneFalling :: Game where
  "oneFalling = game0\<lparr>fruits := [apple, fallen]\<rparr>"

definition lastLife :: Game where
  "lastLife = game0\<lparr>stats := (stats game0)\<lparr>lives := 1\<rparr>, fruits := [fallen, fallen]\<rparr>"

text \<open>A storage that already holds the high score 5, and a game started on it in which
  three fruits fall past the bound with the score still 0.\<close>

definition store5 :: LocalStorage where
  "store5 = \<lparr>item = Some 5, setItemLog = [], unavailable = False\<rparr>"

definition threeFalling :: Game where
  "threeFalling = (startGame (initialGame store5))\<lparr>fruits := [fallen, fallen, fallen]\<rparr>"



text \<open>A storage whose \<open>setItem\<close> raises, and a game started on it.\<close>

definition brokenStore :: LocalStorage where
  "brokenStore = \<lparr>item = None, setItemLog = [], unavailable = True\<rparr>"

definition brokenGame :: Game where
  "brokenGame = (startGame (initialGame brokenStore))\<lparr>fruits := [apple]\<rparr>"

text \<open>A freshly started game runs one frame's \<open>updatePhysics\<close> at clock 2000, which
  throws fruits through deferred spawns, and then a bomb is sliced.\<close>

definition bombAfterThrow :: "error + Game" where
  "bombAfterThrow =
     (case updatePhysics env0 game0 2000 game0 of Inl e \<Rightarrow> Inl e | Inr s \<Rightarrow> sliceBomb s)"

text \<open>A freeze power-up in play in the middle of a combo chain.\<close>

definition iceFruit :: SpecialFruit where
  "iceFruit = \<lparr>ident = ''ice'', posX = 0, posY = 0, velocityX = 0, velocityY = - 10,
                rotation = 0, rotationSpeed = 0, radius = 45, specialType = Freeze\<rparr>"

definition midCombo :: Game where
  "midCombo = game0\<lparr>stats := (stats game0)\<lparr>score := 7, combo := 3, maxCombo := 3,
                                            fruitsSliced := 4\<rparr>,
                    lastComboTimeRef := 900, specialFruits := [iceFruit]\<rparr>"

section \<open>Theorems\<close>

text \<open>
  C10. A trail segment whose two endpoints are the same point never hits: for every
  circle (centre and radius), also one that contains the point, the segment-circle test
  answers "no hit". The coefficient \<open>a\<close> is 0, so both roots are \<open>0 / 0\<close>, which is
  NaN and fails the range test; the division yields a value, not an error.
\<close>

theorem lineCircleIntersection_degenerate:
  "lineCircleIntersection px py px py cx cy r = False"
  by (simp add: lineCircleIntersection_def js_div_def Let_def)

subsection \<open>Fruit slices and the combo counter\<close>

lemma forEachE_snoc:
  "forEachE f (xs @ [x]) s = (case forEachE f xs s of Inl e \<Rightarrow> Inl e | Inr s' \<Rightarrow> f x s')"
  by (induction xs arbitrary: s) (auto split: sum.splits)

lemma sliceFruit_available:
  assumes "\<not> unavailable (localStorage s)"
  shows "\<exists>s'. sliceFruit env fruit angle now s = Inr s' \<and>
           \<not> unavailable (localStorage s') \<and>
           lastComboTimeRef s' = now \<and>
           combo (stats s') =
             (if now - lastComboTimeRef s < COMBO_WINDOW \<and> 0 < lastComboTimeRef s
              then combo (stats s) + 1 else 1) \<and>
           score (stats s') = score (stats s) + FRUIT_POINTS (ftype fruit) * min (combo (stats s')) 8"
  using assms
  by (simp add: sliceFruit_def Let_def createSlicedFruit_def generateId_def setItem_def
      split: prod.splits)

lemma sliceFruits_step:
  assumes "k < length slices"
  shows "sliceFruits env (take (Suc k) slices) s0 =
           (case sliceFruits env (take k slices) s0 of
              Inl e \<Rightarrow> Inl e
            | Inr s \<Rightarrow> sliceFruit env (target (slices ! k)) (swipeAngle (slices ! k))
                        (moment (slices ! k)) s)"
  using assms
  by (simp add: sliceFruits_def take_Suc_conv_app_nth forEachE_snoc)

lemma sliceFruits_chain:
  assumes avail: "\<not> unavailable (localStorage s0)"
    and start: "\<not> (moment (slices ! 0) - lastComboTimeRef s0 < COMBO_WINDOW \<and>
                   0 < lastComboTimeRef s0)"
    and chain: "\<forall>i. Suc i < length slices \<longrightarrow>
                  0 < moment (slices ! i) \<and>
                  moment (slices ! Suc i) - moment (slices ! i) < COMBO_WINDOW"
    and k: "k < length slices"
  shows "\<exists>s s'. sliceFruits env (take k slices) s0 = Inr s \<and>
            sliceFruits env (take (Suc k) slices) s0 = Inr s' \<and>
            \<not> unavailable (localStorage s') \<and>
            lastComboTimeRef s' = moment (slices ! k) \<and>
            combo (stats s') = int k + 1 \<and>
            score (stats s') =
              score (stats s) + FRUIT_POINTS (ftype (target (slices ! k))) * min (int k + 1) 8"
  using k
proof (induction k)
  case 0
  obtain s' where s': "sliceFruit env (target (slices ! 0)) (swipeAngle (slices ! 0))
        (moment (slices ! 0)) s0 = Inr s'"
      "\<not> unavailable (localStorage s')"
      "lastComboTimeRef s' = moment (slices ! 0)"
      "combo (stats s') =
             (if moment (slices ! 0) - lastComboTimeRef s0 < COMBO_WINDOW \<and> 0 < lastComboTimeRef s0
              then combo (stats s0) + 1 else 1)"
      "score (stats s') = score (stats s0) + FRUIT_POINTS (ftype (target (slices ! 0))) * min (combo (stats s')) 8"
    using sliceFruit_available [OF avail] by blast
  have c: "combo (stats s') = 1" using s'(4) start by simp
  have "sliceFruits env (take 0 slices) s0 = Inr s0" by (simp add: sliceFruits_def)
  moreover have "sliceFruits env (take (Suc 0) slices) s0 = Inr s'"
    using sliceFruits_step [OF 0, of env s0] s'(1) by (simp add: sliceFruits_def)
  ultimately show ?case using s' c by simp
next
  case (Suc k)
  then have "k < length slices" by simp
  from Suc.IH [OF this] obtain s where s:
      "sliceFruits env (take (Suc k) slices) s0 = Inr s"
      "\<not> unavailable (localStorage s)"
      "lastComboTimeRef s = moment (slices ! k)"
      "combo (stats s) = int k + 1"
    by blast
  from chain Suc.prems have w: "0 < moment (slices ! k)"
      "moment (slices ! Suc k) - moment (slices ! k) < COMBO_WINDOW"
    by blast+
  obtain s' where s': "sliceFruit env (target (slices ! Suc k)) (swipeAngle (slices ! Suc k))
        (moment (slices ! Suc k)) s = Inr s'"
      "\<not> unavailable (localStorage s')"
      "lastComboTimeRef s' = moment (slices ! Suc k)"
      "combo (stats s') =
             (if moment (slices ! Suc k) - lastComboTimeRef s < COMBO_WINDOW \<and> 0 < lastComboTimeRef s
              then combo (stats s) + 1 else 1)"
      "score (stats s') = score (stats s) + FRUIT_POINTS (ftype (target (slices ! Suc k))) * min (combo (stats s')) 8"
    using sliceFruit_available [OF s(2)] by blast
  have c: "combo (stats s') = int (Suc k) + 1" using s'(4) w s(3,4) by simp
  have "sliceFruits env (take (Suc (Suc k)) slices) s0 = Inr s'"
    using sliceFruits_step [OF Suc.prems, of env s0] s(1) s'(1) by simp
  then show ?case using s(1) s' c by simp
qed

text \<open>
  C1. Take a run of consecutive fruit slices, the calls of \<open>sliceFruit\<close> in
  \<open>slices\<close>, whose first slice opens a chain (no earlier slice, or one not within the
  window) and in which every later slice comes less than \<open>COMBO_WINDOW\<close> = 800 ms after
  the one before it; clock readings are those of \<open>Date.now()\<close>, positive. While the
  storage accepts writes, the run returns, and on the \<open>k + 1\<close>-th slice the combo counter is
  \<open>k + 1\<close> and the score grows by the fruit's base points times \<open>min (k + 1) 8\<close>.
  A slice more than 800 ms after the previous one sets the counter to 1 and scores the
  base points once.
\<close>

theorem sliceFruit_combo_chain:
  "(\<not> unavailable (localStorage s0) \<and>
    \<not> (moment (slices ! 0) - lastComboTimeRef s0 < COMBO_WINDOW \<and> 0 < lastComboTimeRef s0) \<and>
    (\<forall>i. Suc i < length slices \<longrightarrow>
         0 < moment (slices ! i) \<and>
         moment (slices ! Suc i) - moment (slices ! i) < COMBO_WINDOW) \<and>
    k < length slices \<longrightarrow>
    (\<exists>s s'. sliceFruits env (take k slices) s0 = Inr s \<and>
            sliceFruits env (take (Suc k) slices) s0 = Inr s' \<and>
            combo (stats s') = int k + 1 \<and>
            score (stats s') =
              score (stats s) + FRUIT_POINTS (ftype (target (slices ! k))) * min (int k + 1) 8))
   \<and>
   (\<not> unavailable (localStorage s1) \<and> now - lastComboTimeRef s1 > COMBO_WINDOW \<longrightarrow>
    (\<exists>s'. sliceFruit env fruit angle now s1 = Inr s' \<and> combo (stats s') = 1 \<and>
          score (stats s') = score (stats s1) + FRUIT_POINTS (ftype fruit)))"
proof (intro conjI impI)
  assume h: "\<not> unavailable (localStorage s0) \<and>
    \<not> (moment (slices ! 0) - lastComboTimeRef s0 < COMBO_WINDOW \<and> 0 < lastComboTimeRef s0) \<and>
    (\<forall>i. Suc i < length slices \<longrightarrow>
         0 < moment (slices ! i) \<and>
         moment (slices ! Suc i) - moment (slices ! i) < COMBO_WINDOW) \<and>
    k < length slices"
  from sliceFruits_chain [of s0 slices k env] h
  show "\<exists>s s'. sliceFruits env (take k slices) s0 = Inr s \<and>
            sliceFruits env (take (Suc k) slices) s0 = Inr s' \<and>
            combo (stats s') = int k + 1 \<and>
            score (stats s') =
              score (stats s) + FRUIT_POINTS (ftype (target (slices ! k))) * min (int k + 1) 8"
    by blast
next
  assume h: "\<not> unavailable (localStorage s1) \<and> now - lastComboTimeRef s1 > COMBO_WINDOW"
  then have a: "\<not> unavailable (localStorage s1)" by simp
  from sliceFruit_available [OF a, of env fruit angle now] h
  show "\<exists>s'. sliceFruit env fruit angle now s1 = Inr s' \<and> combo (stats s') = 1 \<and>
          score (stats s') = score (stats s1) + FRUIT_POINTS (ftype fruit)"
    by auto
qed

theorem sliceFruit_combo_chain_witness:
  "(\<exists>s s'. sliceFruits env0 (take 2 slices0) game0 = Inr s \<and>
            sliceFruits env0 (take 3 slices0) game0 = Inr s' \<and>
            combo (stats s') = 3 \<and> score (stats s') = score (stats s) + 3) \<and>
   (\<exists>s'. sliceFruit env0 apple 0 2300 (game0\<lparr>lastComboTimeRef := 1400\<rparr>) = Inr s' \<and>
         combo (stats s') = 1 \<and> score (stats s') = 1)"
proof -
  have chain: "\<forall>i. Suc i < length slices0 \<longrightarrow>
         0 < moment (slices0 ! i) \<and>
         moment (slices0 ! Suc i) - moment (slices0 ! i) < COMBO_WINDOW"
    by (auto simp: slices0_def COMBO_WINDOW_def less_Suc_eq numeral_3_eq_3 numeral_2_eq_2)
  have avail: "\<not> unavailable (localStorage game0)"
    by (simp add: game0_def startGame_def initialGame_def store0_def)
  have start: "\<not> (moment (slices0 ! 0) - lastComboTimeRef game0 < COMBO_WINDOW \<and>
                 0 < lastComboTimeRef game0)"
    by (simp add: game0_def startGame_def initialGame_def)
  have len: "2 < length slices0" by (simp add: slices0_def)
  have avail1: "\<not> unavailable (localStorage (game0\<lparr>lastComboTimeRef := 1400\<rparr>))"
    using avail by simp
  have gap: "2300 - lastComboTimeRef (game0\<lparr>lastComboTimeRef := 1400\<rparr>) > COMBO_WINDOW"
    by (simp add: COMBO_WINDOW_def)
  have sc: "score (stats (game0\<lparr>lastComboTimeRef := 1400\<rparr>)) = 0"
    by (simp add: game0_def startGame_def initialGame_def)
  have pts: "FRUIT_POINTS (ftype (target (slices0 ! 2))) = 1" "FRUIT_POINTS (ftype apple) = 1"
    by (simp_all add: slices0_def apple_def)
  show ?thesis
    using sliceFruit_combo_chain [of game0 slices0 2 env0 "game0\<lparr>lastComboTimeRef := 1400\<rparr>"
        2300 apple 0] chain avail start len avail1 gap sc pts
    by (simp add: numeral_3_eq_3 numeral_2_eq_2)
qed

subsection \<open>Spawning and timers leave the score state alone\<close>

lemma sameCore_refl: "sameCore s s"
  by (simp add: sameCore_def)

lemma sameCore_trans: "sameCore s t \<Longrightarrow> sameCore t u \<Longrightarrow> sameCore s u"
  by (simp add: sameCore_def)

lemma sameCore_draw: "sameCore s (snd (draw env s))"
  by (simp add: sameCore_def draw_def)

lemma sameCore_setTimeout: "sameCore s (setTimeout cb d s)"
  by (simp add: sameCore_def setTimeout_def)

lemma sameCore_timeouts:
  "sameCore s0 (foldl (\<lambda>s i. setTimeout cb (d i) s) s0 xs)"
proof (induction xs arbitrary: s0)
  case Nil
  show ?case by (simp add: sameCore_refl)
next
  case (Cons x xs)
  show ?case
    using sameCore_trans [OF sameCore_setTimeout Cons.IH] by simp
qed

lemma sameCore_spawnBomb: "sameCore s (spawnBomb env s)"
  by (simp add: sameCore_def spawnBomb_def draw_def generateId_def Let_def split: prod.splits)

lemma sameCore_spawnSpecialFruit: "sameCore s (spawnSpecialFruit env t s)"
  by (simp add: sameCore_def spawnSpecialFruit_def draw_def generateId_def Let_def
      split: prod.splits)

lemma sameCore_criticalThrow: "sameCore s (criticalThrow env s)"
proof -
  obtain r1 s1 where d1: "draw env s = (r1, s1)" by (cases "draw env s")
  obtain r2 s2 where d2: "draw env s1 = (r2, s2)" by (cases "draw env s1")
  let ?s3 = "foldl (\<lambda>s i. setTimeout SpawnFruitCb (int i * 60) s) s2 [0..<nat (4 + \<lfloor>r1 * 2\<rfloor>)]"
  have a: "sameCore s s1" using sameCore_draw [of s env] d1 by simp
  have b: "sameCore s1 s2" using sameCore_draw [of s1 env] d2 by simp
  have c: "sameCore s2 ?s3" by (rule sameCore_timeouts)
  have d: "sameCore ?s3 (setTimeout CriticalFlashOffCb 400 (?s3\<lparr>criticalFlash := True\<rparr>))"
    by (simp add: sameCore_def setTimeout_def)
  have "criticalThrow env s = setTimeout CriticalFlashOffCb 400 (?s3\<lparr>criticalFlash := True\<rparr>)"
    by (simp add: criticalThrow_def d1 d2 Let_def)
  then show ?thesis
    using sameCore_trans [OF sameCore_trans [OF sameCore_trans [OF a b] c] d] by simp
qed

lemma sameCore_regularSpawn: "sameCore s (regularSpawn env s)"
proof -
  obtain r1 s1 where d1: "draw env s = (r1, s1)" by (cases "draw env s")
  let ?s2 = "foldl (\<lambda>s i. setTimeout SpawnFruitCb (int i * 100) s) s1
               [0..<nat (1 + \<lfloor>r1 * real_of_int (min 3 (waveRef s1))\<rfloor>)]"
  obtain r2 s3 where d2: "draw env ?s2 = (r2, s3)" by (cases "draw env ?s2")
  have a: "sameCore s s1" using sameCore_draw [of s env] d1 by simp
  have b: "sameCore s1 ?s2" by (rule sameCore_timeouts)
  have c: "sameCore ?s2 s3" using sameCore_draw [of ?s2 env] d2 by simp
  have abc: "sameCore s s3" using sameCore_trans [OF sameCore_trans [OF a b] c] .
  have "regularSpawn env s = s3 \<or> regularSpawn env s = spawnBomb env s3"
    by (simp add: regularSpawn_def d1 d2 Let_def)
  then show ?thesis
    using abc sameCore_trans [OF abc sameCore_spawnBomb] by auto
qed

lemma sameCore_specialSpawn: "sameCore s (specialSpawn env s)"
proof -
  obtain r t where d: "draw env s = (r, t)" by (cases "draw env s")
  have a: "sameCore s t" using sameCore_draw [of s env] d by simp
  have b: "sameCore u ((spawnSpecialFruit env Freeze u)\<lparr>spawnsSinceSpecialRef := 0\<rparr>)" for u
    using sameCore_spawnSpecialFruit [of u env Freeze] by (simp add: sameCore_def)
  show ?thesis
    using a b [of s] b [of t] sameCore_trans [OF a b [of t]] sameCore_refl [of s]
    by (simp add: specialSpawn_def d Let_def)
qed

lemma sameCore_waveUpdate: "sameCore s (waveUpdate snap s)"
  by (simp add: waveUpdate_def Let_def sameCore_def setTimeout_def)

lemma sameCore_spawnTick: "sameCore s (spawnTick env snap now s)"
proof -
  let ?s1 = "s\<lparr>lastSpawnRef := now, spawnsSinceSpecialRef := spawnsSinceSpecialRef s + 1\<rparr>"
  obtain rc s2 where d: "draw env ?s1 = (rc, s2)" by (cases "draw env ?s1")
  have a: "sameCore s ?s1" by (simp add: sameCore_def)
  have b: "sameCore ?s1 s2" using sameCore_draw [of ?s1 env] d by simp
  let ?s3 = "if rc < CRITICAL_THROW_CHANCE then criticalThrow env s2 else regularSpawn env s2"
  have c: "sameCore s2 ?s3" by (simp add: sameCore_criticalThrow sameCore_regularSpawn)
  have e: "sameCore ?s3 (waveUpdate snap (specialSpawn env ?s3))"
    using sameCore_trans [OF sameCore_specialSpawn sameCore_waveUpdate] .
  have all: "sameCore s (waveUpdate snap (specialSpawn env ?s3))"
    using sameCore_trans [OF sameCore_trans [OF sameCore_trans [OF a b] c] e] .
  have "spawnTick env snap now s = s \<or>
        spawnTick env snap now s = waveUpdate snap (specialSpawn env ?s3)"
    by (simp add: spawnTick_def d Let_def)
  then show ?thesis using all sameCore_refl [of s] by auto
qed

lemma stepFruits_kept:
  "fst (stepFruits ts g bound fs) = filter (\<lambda>f. \<not> posY f > bound) (map (advance ts g) fs)"
  by (induction fs) (simp_all add: Let_def case_prod_beta)

lemma stepFruits_missed:
  "snd (stepFruits ts g bound fs) =
     int (length (filter (\<lambda>f. posY (advance ts g f) > bound) fs))"
  by (induction fs) (simp_all add: Let_def case_prod_beta)

lemma loseLives_available:
  assumes "\<not> unavailable (localStorage s)"
  shows "\<exists>s'. loseLives m s = Inr s' \<and>
           lives (stats s') = (if lives (stats s) - m \<le> 0 then 0 else lives (stats s) - m) \<and>
           gameState s' = (if lives (stats s) - m \<le> 0 then Gameover else gameState s) \<and>
           setItemLog (localStorage s') =
             (if lives (stats s) - m \<le> 0
              then setItemLog (localStorage s) @ [max (score (stats s)) (highScore (stats s))]
              else setItemLog (localStorage s)) \<and>
           gameOverCalls s' =
             (if lives (stats s) - m \<le> 0 then Suc (gameOverCalls s) else gameOverCalls s) \<and>
           \<not> unavailable (localStorage s')"
  using assms by (simp add: loseLives_def Let_def setItem_def)

lemma missedCount_nonneg: "0 \<le> missedCount env snap s"
  by (simp add: missedCount_def)

lemma updatePhysics_unfold:
  "updatePhysics env snap now s =
     (case (if missedCount env snap s > 0 then loseLives (missedCount env snap s) s else Inr s) of
        Inl e \<Rightarrow> Inl e
      | Inr s1 \<Rightarrow>
          Inr (spawnTick env snap now
                (s1\<lparr>fruits := fst (stepFruits (timeScale snap) (GRAVITY * timeScale snap)
                                   (canvasHeight env + 100) (fruits s)),
                    bombs := filter (\<lambda>bomb. posY bomb < canvasHeight env + 100)
                               (map (advance (timeScale snap) (GRAVITY * timeScale snap)) (bombs s1)),
                    specialFruits := filter (\<lambda>special. posY special < canvasHeight env + 100)
                               (map (advance (timeScale snap) (GRAVITY * timeScale snap))
                                  (specialFruits s1)),
                    slicedFruits := filter (\<lambda>sf. now - createdAt sf < SLICED_FRUIT_LIFETIME)
                               (map (advance (timeScale snap) (GRAVITY * timeScale snap))
                                  (slicedFruits s1))\<rparr>)))"
  by (simp add: updatePhysics_def missedCount_def Let_def case_prod_beta stepFruits_missed)

lemma updatePhysics_available:
  assumes "\<not> unavailable (localStorage s)"
  shows "\<exists>s'. updatePhysics env snap now s = Inr s' \<and>
           lives (stats s') =
             (if 0 < missedCount env snap s \<and> lives (stats s) - missedCount env snap s \<le> 0
              then 0 else lives (stats s) - missedCount env snap s) \<and>
           gameState s' =
             (if 0 < missedCount env snap s \<and> lives (stats s) - missedCount env snap s \<le> 0
              then Gameover else gameState s) \<and>
           setItemLog (localStorage s') =
             (if 0 < missedCount env snap s \<and> lives (stats s) - missedCount env snap s \<le> 0
              then setItemLog (localStorage s) @ [max (score (stats s)) (highScore (stats s))]
              else setItemLog (localStorage s)) \<and>
           gameOverCalls s' =
             (if 0 < missedCount env snap s \<and> lives (stats s) - missedCount env snap s \<le> 0
              then Suc (gameOverCalls s) else gameOverCalls s) \<and>
           \<not> unavailable (localStorage s')"
proof (cases "0 < missedCount env snap s")
  case True
  from loseLives_available [OF assms, of "missedCount env snap s"]
  obtain s1 where s1: "loseLives (missedCount env snap s) s = Inr s1"
    "lives (stats s1) = (if lives (stats s) - missedCount env snap s \<le> 0 then 0
                        else lives (stats s) - missedCount env snap s)"
    "gameState s1 = (if lives (stats s) - missedCount env snap s \<le> 0 then Gameover else gameState s)"
    "setItemLog (localStorage s1) =
             (if lives (stats s) - missedCount env snap s \<le> 0
              then setItemLog (localStorage s) @ [max (score (stats s)) (highScore (stats s))]
              else setItemLog (localStorage s))"
    "gameOverCalls s1 =
             (if lives (stats s) - missedCount env snap s \<le> 0
              then Suc (gameOverCalls s) else gameOverCalls s)"
    "\<not> unavailable (localStorage s1)"
    by blast
  show ?thesis
    using True s1 sameCore_spawnTick
    by (simp add: updatePhysics_unfold sameCore_def)
next
  case False
  with missedCount_nonneg [of env snap s] have "missedCount env snap s = 0" by simp
  then show ?thesis
    using assms sameCore_spawnTick
    by (simp add: updatePhysics_unfold sameCore_def)
qed

subsection \<open>Missed fruits and bombs\<close>

lemma sliceBomb_available:
  assumes "\<not> unavailable (localStorage s)"
  shows "\<exists>s'. sliceBomb s = Inr s' \<and> lives (stats s') = 0 \<and> gameState s' = Gameover \<and>
           score (stats s') = score (stats s) \<and>
           \<not> unavailable (localStorage s')"
  using assms by (simp add: sliceBomb_def Let_def setItem_def setTimeout_def)

text \<open>
  C2, as the code has it. In one frame, while the storage accepts writes, the \<open>M\<close> fruits
  that cross the lower bound (\<open>y > canvasHeight + 100\<close> after the step) are counted in one
  state update: lives become \<open>lives - M\<close> when that is positive, and exactly 0, with the
  state game-over, when \<open>M > 0\<close> and \<open>lives - M \<le> 0\<close>. Slicing a bomb sets lives to
  exactly 0 and the state to game-over, whatever lives remained.
\<close>

theorem missed_fruits_and_bomb_lives:
  "(\<not> unavailable (localStorage s) \<longrightarrow>
      (\<exists>s'. updatePhysics env snap now s = Inr s' \<and>
         lives (stats s') =
           (if 0 < missedCount env snap s \<and> lives (stats s) - missedCount env snap s \<le> 0
            then 0 else lives (stats s) - missedCount env snap s) \<and>
         gameState s' =
           (if 0 < missedCount env snap s \<and> lives (stats s) - missedCount env snap s \<le> 0
            then Gameover else gameState s))) \<and>
   (\<not> unavailable (localStorage b) \<longrightarrow>
      (\<exists>s'. sliceBomb b = Inr s' \<and> lives (stats s') = 0 \<and> gameState s' = Gameover))"
proof (intro conjI impI)
  assume "\<not> unavailable (localStorage s)"
  from updatePhysics_available [OF this, of env snap now]
  show "\<exists>s'. updatePhysics env snap now s = Inr s' \<and>
         lives (stats s') =
           (if 0 < missedCount env snap s \<and> lives (stats s) - missedCount env snap s \<le> 0
            then 0 else lives (stats s) - missedCount env snap s) \<and>
         gameState s' =
           (if 0 < missedCount env snap s \<and> lives (stats s) - missedCount env snap s \<le> 0
            then Gameover else gameState s)"
    by blast
next
  assume "\<not> unavailable (localStorage b)"
  from sliceBomb_available [OF this]
  show "\<exists>s'. sliceBomb b = Inr s' \<and> lives (stats s') = 0 \<and> gameState s' = Gameover"
    by blast
qed

lemma game0_facts:
  "\<not> unavailable (localStorage game0)" "lives (stats game0) = 3" "score (stats game0) = 0"
  "highScore (stats game0) = 0" "gameState game0 = Playing" "timeScale game0 = 1"
  "fruits game0 = []" "lastComboTimeRef game0 = 0" "combo (stats game0) = 0"
  by (simp_all add: game0_def startGame_def initialGame_def store0_def INITIAL_LIVES_def)

lemma missedCount_oneFalling: "missedCount env0 oneFalling oneFalling = 1"
  by (simp add: missedCount_def oneFalling_def game0_facts env0_def advance_def fallen_def
      apple_def GRAVITY_def)

lemma missedCount_lastLife: "missedCount env0 lastLife lastLife = 2"
  by (simp add: missedCount_def lastLife_def game0_facts env0_def advance_def fallen_def
      apple_def GRAVITY_def)

theorem missed_fruits_and_bomb_lives_witness:
  "(\<exists>s'. updatePhysics env0 oneFalling 5000 oneFalling = Inr s' \<and>
         lives (stats s') = 2 \<and> gameState s' = Playing) \<and>
   (\<exists>s'. sliceBomb game0 = Inr s' \<and> lives (stats s') = 0 \<and> gameState s' = Gameover)"
  using missed_fruits_and_bomb_lives [of oneFalling env0 oneFalling 5000 game0]
    missedCount_oneFalling game0_facts
  by (simp add: oneFalling_def)

text \<open>
  C2 as stated fails where more fruits are missed than lives remain: with one life and two
  fruits past the bound, lives become 0, not \<open>1 - 2\<close>.
\<close>

theorem missed_fruits_clamped_counterexample:
  "\<exists>s'. updatePhysics env0 lastLife 5000 lastLife = Inr s' \<and>
        missedCount env0 lastLife lastLife = 2 \<and>
        lives (stats lastLife) = 1 \<and>
        lives (stats s') = 0 \<and>
        lives (stats s') \<noteq> lives (stats lastLife) - missedCount env0 lastLife lastLife"
proof -
  have a: "\<not> unavailable (localStorage lastLife)"
    using game0_facts by (simp add: lastLife_def)
  have l: "lives (stats lastLife) = 1" by (simp add: lastLife_def)
  from updatePhysics_available [OF a, of env0 lastLife 5000] missedCount_lastLife l
  show ?thesis by auto
qed

subsection \<open>High-score persistence\<close>

lemma sliceFruit_write_guarded:
  assumes "sliceFruit env fruit angle now s = Inr s'"
  shows "setItemLog (localStorage s') =
           (if score (stats s') > highScore (stats s)
            then setItemLog (localStorage s) @ [score (stats s')]
            else setItemLog (localStorage s))"
  using assms
  by (auto simp: sliceFruit_def Let_def createSlicedFruit_def generateId_def setItem_def
      split: prod.splits if_splits)

lemma sliceBomb_write_guarded:
  assumes "sliceBomb s = Inr s'"
  shows "setItemLog (localStorage s') =
           (if score (stats s) > highScore (stats s)
            then setItemLog (localStorage s) @ [score (stats s)]
            else setItemLog (localStorage s))"
  using assms
  by (auto simp: sliceBomb_def Let_def setItem_def setTimeout_def split: if_splits)

lemma threeFalling_facts:
  "\<not> unavailable (localStorage threeFalling)" "lives (stats threeFalling) = 3"
  "score (stats threeFalling) = 0" "highScore (stats threeFalling) = 5"
  "item (localStorage threeFalling) = Some 5" "setItemLog (localStorage threeFalling) = []"
  "timeScale threeFalling = 1" "fruits threeFalling = [fallen, fallen, fallen]"
  by (simp_all add: threeFalling_def startGame_def initialGame_def store5_def INITIAL_LIVES_def)

lemma missedCount_threeFalling: "missedCount env0 threeFalling threeFalling = 3"
  by (simp add: missedCount_def threeFalling_facts env0_def advance_def fallen_def
      apple_def GRAVITY_def)

text \<open>
  C3 at the failing input. The stored high score is 5 and nothing was written yet; the
  score is 0 when three fruits are missed in one frame. The game-over branch of
  \<open>updatePhysics\<close> calls \<open>setItem\<close> without the test \<open>newHighScore > prev.highScore\<close>
  that \<open>sliceFruit\<close> and \<open>sliceBomb\<close> make, and writes 5, the value already stored.
\<close>

theorem missed_game_over_rewrites_high_score:
  "\<exists>s'. updatePhysics env0 threeFalling 5000 threeFalling = Inr s' \<and>
        score (stats threeFalling) = 0 \<and>
        highScore (stats threeFalling) = 5 \<and>
        item (localStorage threeFalling) = Some 5 \<and>
        setItemLog (localStorage threeFalling) = [] \<and>
        setItemLog (localStorage s') = [5]"
  using updatePhysics_available [of threeFalling env0 threeFalling 5000]
    missedCount_threeFalling threeFalling_facts
  by auto

subsection \<open>Lives and the game-over transition\<close>

lemma forEachE_preserves:
  assumes "\<And>x s s'. P s \<Longrightarrow> f x s = Inr s' \<Longrightarrow> P s'"
    and "P s" and "forEachE f xs s = Inr s'"
  shows "P s'"
  using assms(2,3)
proof (induction xs arbitrary: s)
  case Nil
  then show ?case by simp
next
  case (Cons x xs)
  then show ?case using assms(1) by (auto split: sum.splits)
qed

lemma foldl_preserves:
  assumes "\<And>x s. P s \<Longrightarrow> P (f s x)" and "P s"
  shows "P (foldl f s xs)"
  using assms(2) by (induction xs arbitrary: s) (simp_all add: assms(1))

lemma sliceFruit_livesOk:
  "livesOk s \<Longrightarrow> sliceFruit env fruit angle now s = Inr s' \<Longrightarrow> livesOk s'"
  by (auto simp: livesOk_def sliceFruit_def Let_def createSlicedFruit_def generateId_def
      case_prod_beta split: sum.splits)

lemma sliceBomb_livesOk: "sliceBomb s = Inr s' \<Longrightarrow> livesOk s'"
  by (auto simp: livesOk_def sliceBomb_def Let_def setTimeout_def split: if_splits sum.splits)

lemma clearTimeout_livesOk: "livesOk (clearTimeout h s) = livesOk s"
  by (simp add: livesOk_def clearTimeout_def)

lemma setTimeout_livesOk: "livesOk (setTimeout cb d s) = livesOk s"
  by (simp add: livesOk_def setTimeout_def)

lemma timeouts_livesOk:
  "livesOk s \<Longrightarrow> livesOk (foldl (\<lambda>s i. setTimeout cb (d i) s) s xs)"
  by (rule foldl_preserves) (simp_all add: setTimeout_livesOk)

lemma activateFreeze_livesOk: "livesOk s \<Longrightarrow> livesOk (activateFreeze s)"
  by (simp add: activateFreeze_def Let_def setTimeout_livesOk)
     (simp add: livesOk_def clearTimeout_def split: option.splits)

lemma activateFrenzy_livesOk:
  assumes "livesOk s"
  shows "livesOk (activateFrenzy gs s)"
proof -
  let ?s1 = "case effectTimeoutRef s of Some h \<Rightarrow> clearTimeout h s | None \<Rightarrow> s"
  have "livesOk ?s1" using assms by (simp add: clearTimeout_livesOk split: option.splits)
  then have "livesOk (?s1\<lparr>activeEffect := Some Frenzy, timeScale := 0.3\<rparr>)"
    by (simp add: livesOk_def)
  from timeouts_livesOk [OF this]
  have "livesOk (foldl (\<lambda>s i. setTimeout (FrenzySpawnCb gs) (int i * 80) s)
                  (?s1\<lparr>activeEffect := Some Frenzy, timeScale := 0.3\<rparr>) [0..<16])" .
  then show ?thesis
    by (simp add: activateFrenzy_def Let_def setTimeout_livesOk) (simp add: livesOk_def)
qed

lemma sliceSpecialFruit_livesOk:
  assumes "livesOk s"
  shows "livesOk (sliceSpecialFruit gs special s)"
proof -
  have "livesOk (s\<lparr>stats := (stats s)\<lparr>score := score (stats s) + 50\<rparr>,
                   specialFruits := filter (\<lambda>x. ident x \<noteq> ident special) (specialFruits s)\<rparr>)"
    using assms by (simp add: livesOk_def)
  then show ?thesis
    by (simp add: sliceSpecialFruit_def Let_def activateFrenzy_livesOk activateFreeze_livesOk)
qed

lemma hitFruit_livesOk: "livesOk s \<Longrightarrow> hitFruit env p1 p2 angle now fruit s = Inr s' \<Longrightarrow> livesOk s'"
  by (auto simp: hitFruit_def dest: sliceFruit_livesOk split: if_splits)

lemma hitSpecial_livesOk: "livesOk s \<Longrightarrow> livesOk (hitSpecial gs p1 p2 s special)"
  by (simp add: hitSpecial_def sliceSpecialFruit_livesOk)

lemma hitBomb_livesOk: "livesOk s \<Longrightarrow> hitBomb p1 p2 bomb s = Inr s' \<Longrightarrow> livesOk s'"
  by (auto simp: hitBomb_def dest: sliceBomb_livesOk split: if_splits)

lemma checkSegment_livesOk:
  assumes "livesOk s" and "checkSegment env snap p1 p2 now s = Inr s'"
  shows "livesOk s'"
proof -
  let ?angle = "js_atan2 (ptY p2 - ptY p1) (ptX p2 - ptX p1)"
  from assms(2) obtain s1 where
    s1: "forEachE (hitFruit env p1 p2 ?angle now) (fruits snap) s = Inr s1"
    and rest: "(if activeEffect snap \<noteq> Some Frenzy
                then forEachE (hitBomb p1 p2) (bombs snap)
                       (foldl (hitSpecial (gameState snap) p1 p2) s1 (specialFruits snap))
                else Inr (foldl (hitSpecial (gameState snap) p1 p2) s1 (specialFruits snap)))
               = Inr s'"
    by (simp add: checkSegment_def Let_def split: sum.splits)
  have a: "livesOk s1"
    by (rule forEachE_preserves [where P = livesOk, OF hitFruit_livesOk assms(1) s1])
  have b: "livesOk (foldl (hitSpecial (gameState snap) p1 p2) s1 (specialFruits snap))"
    by (rule foldl_preserves [where P = livesOk, OF hitSpecial_livesOk a])
  show ?thesis
  proof (cases "activeEffect snap \<noteq> Some Frenzy")
    case True
    with rest have r: "forEachE (hitBomb p1 p2) (bombs snap)
        (foldl (hitSpecial (gameState snap) p1 p2) s1 (specialFruits snap)) = Inr s'"
      by simp
    show ?thesis
      by (rule forEachE_preserves [where P = livesOk, OF hitBomb_livesOk b r])
  next
    case False
    with rest b show ?thesis by simp
  qed
qed

lemma checkCollisions_livesOk:
  assumes "livesOk s" and "checkCollisions env snap tr sw now s = Inr s'"
  shows "livesOk s'"
proof (cases "\<not> sw \<or> length tr < 2")
  case True
  with assms show ?thesis by (simp add: checkCollisions_def)
next
  case False
  with assms(2) have r: "forEachE (\<lambda>i s. checkSegment env snap (tr ! i) (tr ! (i + 1)) now s)
             [length tr - 5 ..< length tr - 1] s = Inr s'"
    by (simp add: checkCollisions_def)
  show ?thesis
    by (rule forEachE_preserves [where P = livesOk, OF _ assms(1) r])
       (rule checkSegment_livesOk)
qed

lemma loseLives_livesOk: "loseLives m s = Inr s' \<Longrightarrow> livesOk s'"
  by (auto simp: loseLives_def Let_def livesOk_def split: if_splits sum.splits)

lemma updatePhysics_livesOk:
  assumes "livesOk s" and "updatePhysics env snap now s = Inr s'"
  shows "livesOk s'"
proof -
  let ?m = "missedCount env snap s"
  obtain s1 where s1: "(if ?m > 0 then loseLives ?m s else Inr s) = Inr s1"
    using assms(2) unfolding updatePhysics_unfold
    by (cases "if ?m > 0 then loseLives ?m s else Inr s") simp_all
  let ?s2 = "s1\<lparr>fruits := fst (stepFruits (timeScale snap) (GRAVITY * timeScale snap)
                                   (canvasHeight env + 100) (fruits s)),
                    bombs := filter (\<lambda>bomb. posY bomb < canvasHeight env + 100)
                               (map (advance (timeScale snap) (GRAVITY * timeScale snap)) (bombs s1)),
                    specialFruits := filter (\<lambda>special. posY special < canvasHeight env + 100)
                               (map (advance (timeScale snap) (GRAVITY * timeScale snap))
                                  (specialFruits s1)),
                    slicedFruits := filter (\<lambda>sf. now - createdAt sf < SLICED_FRUIT_LIFETIME)
                               (map (advance (timeScale snap) (GRAVITY * timeScale snap))
                                  (slicedFruits s1))\<rparr>"
  have eq: "s' = spawnTick env snap now ?s2"
    using assms(2) s1 unfolding updatePhysics_unfold by simp
  have l1: "livesOk s1"
  proof (cases "?m > 0")
    case True
    with s1 have "loseLives ?m s = Inr s1" by simp
    then show ?thesis by (rule loseLives_livesOk)
  next
    case False
    with s1 assms(1) show ?thesis by simp
  qed
  have "sameCore ?s2 s'" unfolding eq by (rule sameCore_spawnTick)
  then have "stats s' = stats s1" "gameState s' = gameState s1"
    by (simp_all add: sameCore_def)
  with l1 show ?thesis by (simp add: livesOk_def)
qed

lemma gameLoop_livesOk:
  assumes "livesOk s" and "gameLoop env fr s = Inr s'"
  shows "livesOk s'"
proof (cases "gameState s = Playing")
  case True
  with assms(2) obtain s1 where
    c: "checkCollisions env s (trail fr) (isSwiping fr) (clock fr) s = Inr s1"
    and u: "updatePhysics env s (clock fr) s1 = Inr s'"
    by (cases "checkCollisions env s (trail fr) (isSwiping fr) (clock fr) s")
       (simp_all add: gameLoop_def)
  from checkCollisions_livesOk [OF assms(1) c] have "livesOk s1" .
  from updatePhysics_livesOk [OF this u] show ?thesis .
next
  case False
  with assms show ?thesis by (simp add: gameLoop_def)
qed

lemma spawnFruit_livesOk: "livesOk (spawnFruit env s) = livesOk s"
  by (simp add: livesOk_def spawnFruit_def draw_def generateId_def Let_def case_prod_beta)

lemma fireTimer_livesOk: "livesOk s \<Longrightarrow> livesOk (fireTimer env h s)"
proof -
  assume a: "livesOk s"
  have "livesOk (runCallback env cb (clearTimeout h s))" for cb
    using a by (cases cb) (simp_all add: spawnFruit_livesOk clearTimeout_livesOk, simp_all add: livesOk_def clearTimeout_def)
  then show ?thesis using a by (simp add: fireTimer_def split: option.splits)
qed

lemma startGame_livesOk: "livesOk (startGame s)"
  by (simp add: startGame_def Let_def livesOk_def INITIAL_LIVES_def)

lemma returnToMenu_livesOk: "livesOk s \<Longrightarrow> livesOk (returnToMenu s)"
  by (simp add: returnToMenu_def Let_def livesOk_def clearTimeout_def split: option.splits)

text \<open>Lives are never negative, and they are 0 only when the game is no longer
  playing, in every reachable state.\<close>

lemma reachable_livesOk: "reachable env s \<Longrightarrow> livesOk s"
proof (induction rule: reachable.induct)
  case (first_render st)
  show ?case by (simp add: initialGame_def livesOk_def INITIAL_LIVES_def)
next
  case (started s)
  show ?case by (rule startGame_livesOk)
next
  case (left s)
  then show ?case by (simp add: returnToMenu_livesOk)
next
  case (frame s fr s')
  then show ?case using gameLoop_livesOk by blast
next
  case (timer s h)
  then show ?case by (simp add: fireTimer_livesOk)
qed

text \<open>Outside \<open>playing\<close> the frames change nothing, so the game-over code can only run
  in the frame that ends the game; how often it runs there is counted by
  \<open>gameOverCalls\<close>.\<close>

lemma gameLoop_not_playing: "gameState s \<noteq> Playing \<Longrightarrow> gameLoop env fr s = Inr s"
  by (simp add: gameLoop_def)

lemma frames_not_playing:
  "gameState s \<noteq> Playing \<Longrightarrow> forEachE (gameLoop env) frs s = Inr s"
  by (induction frs) (simp_all add: gameLoop_not_playing)









subsection \<open>One collision pass\<close>

lemma sqrt_hit: "sqrt 64802500 = 8050"
  by (rule real_sqrt_unique) simp_all

lemma hit_first: "lineCircleIntersection (- 100) 0 0 0 0 0 (35 * 1.15)"
  by (simp add: lineCircleIntersection_def Let_def js_div_def sqrt_hit)

lemma hit_second: "lineCircleIntersection 0 0 100 0 0 0 (35 * 1.15)"
  by (simp add: lineCircleIntersection_def Let_def js_div_def sqrt_hit)

lemma sliceFruit_counts:
  assumes "sliceFruit env fruit angle now s = Inr s'"
  shows "fruitsSliced (stats s') = fruitsSliced (stats s) + 1 \<and>
         length (slicedFruits s') = length (slicedFruits s) + 2 \<and>
         fruits s' = filter (\<lambda>f. ident f \<noteq> ident fruit) (fruits s)"
  using assms
  by (auto simp: sliceFruit_def Let_def createSlicedFruit_def generateId_def case_prod_beta
      split: sum.splits)

lemma checkSegment_single:
  assumes "fruits snap = [f]" "specialFruits snap = []" "bombs snap = []"
  shows "checkSegment env snap p1 p2 now s =
           hitFruit env p1 p2 (js_atan2 (ptY p2 - ptY p1) (ptX p2 - ptX p1)) now f s"
  using assms by (simp add: checkSegment_def Let_def split: sum.splits)

lemma oneApple_facts:
  "fruits oneApple = [apple]" "specialFruits oneApple = []" "bombs oneApple = []"
  "\<not> unavailable (localStorage oneApple)" "score (stats oneApple) = 0"
  "fruitsSliced (stats oneApple) = 0" "slicedFruits oneApple = []"
  "lastComboTimeRef oneApple = 0" "combo (stats oneApple) = 0"
  by (simp_all add: oneApple_def game0_def startGame_def initialGame_def store0_def)

text \<open>
  C5 at the failing input. One unsliced apple is in play and the swipe crosses it with two
  consecutive segments. The pass runs over the fruits of the render, whose \<open>sliced\<close> flag
  nothing ever sets, so \<open>sliceFruit\<close> runs for the same apple on each segment: two fruits
  are counted, the combo reaches 2, the score is 1 + 2 = 3 and four halves exist.
\<close>

theorem checkCollisions_scores_one_fruit_twice:
  "\<exists>s'. checkCollisions env0 oneApple swipe3 True 1000 oneApple = Inr s' \<and>
        fruits oneApple = [apple] \<and>
        score (stats oneApple) = 0 \<and>
        score (stats s') = 3 \<and>
        fruitsSliced (stats s') = 2 \<and>
        combo (stats s') = 2 \<and>
        length (slicedFruits s') = 4 \<and>
        fruits s' = []"
proof -
  have ap: "\<not> sliced apple" "posX apple = 0" "posY apple = 0" "radius apple = 35"
    "ident apple = ''a''" "FRUIT_POINTS (ftype apple) = 1"
    by (simp_all add: apple_def)
  have h1: "hitFruit env0 (swipe3 ! 0) (swipe3 ! 1) ang 1000 apple s
              = sliceFruit env0 apple ang 1000 s" for ang s
    using hit_first ap by (simp add: hitFruit_def swipe3_def)
  have h2: "hitFruit env0 (swipe3 ! 1) (swipe3 ! 2) ang 1000 apple s
              = sliceFruit env0 apple ang 1000 s" for ang s
    using hit_second ap by (simp add: hitFruit_def swipe3_def)
  let ?a1 = "js_atan2 (ptY (swipe3 ! 1) - ptY (swipe3 ! 0)) (ptX (swipe3 ! 1) - ptX (swipe3 ! 0))"
  let ?a2 = "js_atan2 (ptY (swipe3 ! 2) - ptY (swipe3 ! 1)) (ptX (swipe3 ! 2) - ptX (swipe3 ! 1))"
  have c1: "checkSegment env0 oneApple (swipe3 ! 0) (swipe3 ! 1) 1000 s
              = sliceFruit env0 apple ?a1 1000 s" for s
    using checkSegment_single [OF oneApple_facts(1-3)] h1 by simp
  have c2: "checkSegment env0 oneApple (swipe3 ! 1) (swipe3 ! 2) 1000 s
              = sliceFruit env0 apple ?a2 1000 s" for s
    using checkSegment_single [OF oneApple_facts(1-3)] h2 by simp
  obtain s1 where s1: "sliceFruit env0 apple ?a1 1000 oneApple = Inr s1"
    "\<not> unavailable (localStorage s1)" "lastComboTimeRef s1 = 1000"
    "combo (stats s1) = 1" "score (stats s1) = 1"
    using sliceFruit_available [OF oneApple_facts(4), of env0 apple ?a1 1000]
      oneApple_facts ap
    by auto
  obtain s2 where s2: "sliceFruit env0 apple ?a2 1000 s1 = Inr s2"
    "combo (stats s2) = 2" "score (stats s2) = 3"
    using sliceFruit_available [OF s1(2), of env0 apple ?a2 1000] s1 ap
    by (auto simp: COMBO_WINDOW_def)
  have n1: "fruitsSliced (stats s1) = 1" "length (slicedFruits s1) = 2"
    using sliceFruit_counts [OF s1(1)] oneApple_facts by simp_all
  have n2: "fruitsSliced (stats s2) = 2" "length (slicedFruits s2) = 4" "fruits s2 = []"
    using sliceFruit_counts [OF s2(1)] sliceFruit_counts [OF s1(1)] n1 oneApple_facts ap
    by simp_all
  have segs: "[length swipe3 - 5 ..< length swipe3 - 1] = [0, 1]"
    by (simp add: swipe3_def upt_rec)
  have "checkCollisions env0 oneApple swipe3 True 1000 oneApple = Inr s2"
    using segs c1 c2 s1(1) s2(1) by (simp add: checkCollisions_def swipe3_def)
  then show ?thesis using s2 n2 oneApple_facts by simp
qed

theorem checkCollisions_scores_one_fruit_twice_witness:
  "\<exists>s'. checkCollisions env0 oneApple swipe3 True 1000 oneApple = Inr s' \<and>
        length (fruits oneApple) = 1 \<and> fruitsSliced (stats s') = 2 \<and> score (stats s') = 3"
  using checkCollisions_scores_one_fruit_twice by auto

subsection \<open>A storage that raises\<close>

text \<open>
  C7 at the failing input. The storage raises on \<open>setItem\<close>. The first slice of a game
  takes the score above the high score, \<open>sliceFruit\<close> writes without \<open>try\<close>/\<open>catch\<close>,
  and the exception leaves the slice handler and the frame; the older engine's
  \<open>saveBestScore\<close> on the same storage swallows it.
\<close>

theorem storage_failure_escapes_the_frame:
  "unavailable (localStorage brokenGame) \<and>
   sliceFruit env0 apple 0 1000 brokenGame = Inl StorageError \<and>
   gameLoop env0 \<lparr>trail = swipe3, isSwiping = True, clock = 1000\<rparr> brokenGame
     = Inl StorageError \<and>
   saveBestScore 1 brokenStore = brokenStore"
proof -
  have b: "unavailable (localStorage brokenGame)" "highScore (stats brokenGame) = 0"
    "score (stats brokenGame) = 0" "lastComboTimeRef brokenGame = 0"
    "fruits brokenGame = [apple]" "specialFruits brokenGame = []" "bombs brokenGame = []"
    "gameState brokenGame = Playing"
    by (simp_all add: brokenGame_def startGame_def initialGame_def brokenStore_def)
  have s: "sliceFruit env0 apple ang 1000 brokenGame = Inl StorageError" for ang
    using b by (simp add: sliceFruit_def Let_def setItem_def apple_def)
  have ap: "\<not> sliced apple" "posX apple = 0" "posY apple = 0" "radius apple = 35"
    by (simp_all add: apple_def)
  have h: "hitFruit env0 (swipe3 ! 0) (swipe3 ! 1) ang 1000 apple brokenGame = Inl StorageError"
    for ang
    using hit_first ap s by (simp add: hitFruit_def swipe3_def)
  have c: "checkSegment env0 brokenGame (swipe3 ! 0) (swipe3 ! 1) 1000 brokenGame
             = Inl StorageError"
    using checkSegment_single [OF b(5-7)] h by simp
  have segs: "[length swipe3 - 5 ..< length swipe3 - 1] = [0, 1]"
    by (simp add: swipe3_def upt_rec)
  have "checkCollisions env0 brokenGame swipe3 True 1000 brokenGame = Inl StorageError"
    using segs c by (simp add: checkCollisions_def swipe3_def)
  then have g: "gameLoop env0 \<lparr>trail = swipe3, isSwiping = True, clock = 1000\<rparr> brokenGame
     = Inl StorageError"
    using b(8) by (simp add: gameLoop_def)
  have sv: "saveBestScore 1 brokenStore = brokenStore"
    by (simp add: saveBestScore_def setItem_def brokenStore_def)
  show ?thesis using b(1) s g sv by simp
qed

subsection \<open>A deferred spawn after the game ended\<close>

lemma spawnFruit_adds:
  "length (fruits (spawnFruit env s)) = Suc (length (fruits s)) \<and>
   gameState (spawnFruit env s) = gameState s"
  by (simp add: spawnFruit_def draw_def generateId_def Let_def case_prod_beta)

lemma fireTimer_spawn:
  assumes "find (\<lambda>t. handle t = h) (timers s) = Some t" and "callback t = SpawnFruitCb"
  shows "length (fruits (fireTimer env h s)) = Suc (length (fruits s)) \<and>
         gameState (fireTimer env h s) = gameState s"
  using assms spawnFruit_adds [of env "clearTimeout h s"]
  by (simp add: fireTimer_def clearTimeout_def)

lemma game0_more:
  "timers game0 = []" "nextHandle game0 = 1" "activeEffect game0 = None" "waveRef game0 = 1"
  "lastSpawnRef game0 = 0" "bombs game0 = []" "specialFruits game0 = []"
  "slicedFruits game0 = []" "randomCalls game0 = 0" "effectTimeoutRef game0 = None"
  by (simp_all add: game0_def startGame_def initialGame_def store0_def)

lemma criticalThrow_first_timer:
  assumes "timers s = []" "nextHandle s = 1" "random env (randomCalls s) = 0"
  shows "find (\<lambda>t. handle t = 1) (timers (criticalThrow env s))
           = Some \<lparr>handle = 1, delay = 0, callback = SpawnFruitCb\<rparr>"
  using assms
  by (simp add: criticalThrow_def draw_def Let_def setTimeout_def upt_rec)

lemma find_append_Some: "find P xs = Some t \<Longrightarrow> find P (xs @ ys) = Some t"
  by (induction xs) (simp_all split: if_splits)

lemma specialSpawn_timers: "timers (specialSpawn env s) = timers s"
  by (simp add: specialSpawn_def spawnSpecialFruit_def draw_def generateId_def Let_def
      case_prod_beta)

lemma waveUpdate_timers:
  "find P (timers s) = Some t \<Longrightarrow> find P (timers (waveUpdate snap s)) = Some t"
  by (simp add: waveUpdate_def Let_def setTimeout_def find_append_Some)

lemma sliceBomb_timers:
  "sliceBomb s = Inr s' \<Longrightarrow> find P (timers s) = Some t \<Longrightarrow> find P (timers s') = Some t"
  by (auto simp: sliceBomb_def Let_def setTimeout_def find_append_Some split: sum.splits)

lemma sliceBomb_frame:
  "sliceBomb s = Inr s' \<Longrightarrow> fruits s' = fruits s \<and> effectTimeoutRef s' = effectTimeoutRef s"
  by (auto simp: sliceBomb_def Let_def setTimeout_def split: sum.splits)

lemma spawnTick_first_timer:
  assumes "timers s = []" "nextHandle s = 1" "randomCalls s = 0" "lastSpawnRef s = 0"
    "waveRef s = 1" "activeEffect snap = None"
  shows "find (\<lambda>t. handle t = 1) (timers (spawnTick env0 snap 2000 s))
     = Some \<lparr>handle = 1, delay = 0, callback = SpawnFruitCb\<rparr>"
proof -
  let ?s2 = "s\<lparr>lastSpawnRef := 2000, spawnsSinceSpecialRef := spawnsSinceSpecialRef s + 1,
               randomCalls := Suc 0\<rparr>"
  have c: "find (\<lambda>t. handle t = 1) (timers (criticalThrow env0 ?s2))
           = Some \<lparr>handle = 1, delay = 0, callback = SpawnFruitCb\<rparr>"
    by (rule criticalThrow_first_timer) (simp_all add: assms env0_def)
  have "spawnTick env0 snap 2000 s = waveUpdate snap (specialSpawn env0 (criticalThrow env0 ?s2))"
    by (simp add: spawnTick_def Let_def draw_def assms env0_def
        SPAWN_INTERVAL_MIN_def SPAWN_INTERVAL_BASE_def CRITICAL_THROW_CHANCE_def)
  then show ?thesis
    using waveUpdate_timers [of _ "specialSpawn env0 (criticalThrow env0 ?s2)"] c
    by (simp add: specialSpawn_timers)
qed

lemma updatePhysics_game0:
  "\<exists>s. updatePhysics env0 game0 2000 game0 = Inr s \<and>
       find (\<lambda>t. handle t = 1) (timers s)
         = Some \<lparr>handle = 1, delay = 0, callback = SpawnFruitCb\<rparr> \<and>
       fruits s = [] \<and> effectTimeoutRef s = None \<and> \<not> unavailable (localStorage s)"
proof -
  have m: "missedCount env0 game0 game0 = 0"
    by (simp add: missedCount_def game0_facts)
  let ?s1 = "game0\<lparr>fruits := fst (stepFruits (timeScale game0) (GRAVITY * timeScale game0)
                                   (canvasHeight env0 + 100) (fruits game0)),
                    bombs := filter (\<lambda>bomb. posY bomb < canvasHeight env0 + 100)
                               (map (advance (timeScale game0) (GRAVITY * timeScale game0)) (bombs game0)),
                    specialFruits := filter (\<lambda>special. posY special < canvasHeight env0 + 100)
                               (map (advance (timeScale game0) (GRAVITY * timeScale game0))
                                  (specialFruits game0)),
                    slicedFruits := filter (\<lambda>sf. 2000 - createdAt sf < SLICED_FRUIT_LIFETIME)
                               (map (advance (timeScale game0) (GRAVITY * timeScale game0))
                                  (slicedFruits game0))\<rparr>"
  have u: "updatePhysics env0 game0 2000 game0 = Inr (spawnTick env0 game0 2000 ?s1)"
    by (simp add: updatePhysics_unfold m)
  have t: "find (\<lambda>t. handle t = 1) (timers (spawnTick env0 game0 2000 ?s1))
             = Some \<lparr>handle = 1, delay = 0, callback = SpawnFruitCb\<rparr>"
    by (rule spawnTick_first_timer) (simp_all add: game0_more)
  have "sameCore ?s1 (spawnTick env0 game0 2000 ?s1)" by (rule sameCore_spawnTick)
  then have "fruits (spawnTick env0 game0 2000 ?s1) = []"
    "effectTimeoutRef (spawnTick env0 game0 2000 ?s1) = None"
    "\<not> unavailable (localStorage (spawnTick env0 game0 2000 ?s1))"
    by (simp_all add: sameCore_def game0_facts game0_more)
  with u t show ?thesis by simp
qed

text \<open>
  C6 at the failing input. A started game runs \<open>updatePhysics\<close>, which defers its fruit
  spawns with \<open>setTimeout(() => spawnFruit(), ...)\<close>; then a bomb is sliced. The game is
  over and no fruit is live, and the first deferred spawn (handle 1) is still pending. Its
  callback tests nothing: when it fires, a fruit enters the live collection although the
  state is game-over. \<open>startGame\<close> cancels only the effect timer, so after a restart the
  same callback puts its fruit into the new game.
\<close>

theorem deferred_spawn_ignores_game_state:
  "\<exists>s. bombAfterThrow = Inr s \<and>
       gameState s = Gameover \<and>
       fruits s = [] \<and>
       length (fruits (fireTimer env0 1 s)) = 1 \<and>
       gameState (fireTimer env0 1 s) = Gameover \<and>
       fruits (startGame s) = [] \<and>
       gameState (startGame s) = Playing \<and>
       length (fruits (fireTimer env0 1 (startGame s))) = 1"
proof -
  obtain s1 where s1: "updatePhysics env0 game0 2000 game0 = Inr s1"
    "find (\<lambda>t. handle t = 1) (timers s1)
       = Some \<lparr>handle = 1, delay = 0, callback = SpawnFruitCb\<rparr>"
    "fruits s1 = []" "effectTimeoutRef s1 = None" "\<not> unavailable (localStorage s1)"
    using updatePhysics_game0 by blast
  obtain s where s: "sliceBomb s1 = Inr s" "gameState s = Gameover"
    using sliceBomb_available [OF s1(5)] by blast
  have b: "bombAfterThrow = Inr s" by (simp add: bombAfterThrow_def s1(1) s(1))
  have f: "find (\<lambda>t. handle t = 1) (timers s)
             = Some \<lparr>handle = 1, delay = 0, callback = SpawnFruitCb\<rparr>"
    by (rule sliceBomb_timers [OF s(1) s1(2)])
  have e: "fruits s = []" "effectTimeoutRef s = None"
    using sliceBomb_frame [OF s(1)] s1 by simp_all
  have r: "timers (startGame s) = timers s" "fruits (startGame s) = []"
    "gameState (startGame s) = Playing"
    by (simp_all add: startGame_def e)
  have f': "find (\<lambda>t. handle t = 1) (timers (startGame s))
             = Some \<lparr>handle = 1, delay = 0, callback = SpawnFruitCb\<rparr>"
    unfolding r(1) by (rule f)
  show ?thesis
    using fireTimer_spawn [OF f, of env0] fireTimer_spawn [OF f', of env0] b s(2) e r
    by (intro exI [of _ s]) simp
qed

subsection \<open>The halves of a sliced fruit\<close>
















subsection \<open>Slicing a special fruit\<close>

lemma timeouts_keep:
  "stats (foldl (\<lambda>s i. setTimeout cb (d i) s) s0 xs) = stats s0 \<and>
   lastComboTimeRef (foldl (\<lambda>s i. setTimeout cb (d i) s) s0 xs) = lastComboTimeRef s0 \<and>
   specialFruits (foldl (\<lambda>s i. setTimeout cb (d i) s) s0 xs) = specialFruits s0 \<and>
   activeEffect (foldl (\<lambda>s i. setTimeout cb (d i) s) s0 xs) = activeEffect s0 \<and>
   timeScale (foldl (\<lambda>s i. setTimeout cb (d i) s) s0 xs) = timeScale s0"
  by (induction xs arbitrary: s0) (simp_all add: setTimeout_def)

lemma clear_keep:
  "stats (case effectTimeoutRef s of Some h \<Rightarrow> clearTimeout h s | None \<Rightarrow> s) = stats s \<and>
   lastComboTimeRef (case effectTimeoutRef s of Some h \<Rightarrow> clearTimeout h s | None \<Rightarrow> s)
     = lastComboTimeRef s \<and>
   specialFruits (case effectTimeoutRef s of Some h \<Rightarrow> clearTimeout h s | None \<Rightarrow> s)
     = specialFruits s"
  by (simp add: clearTimeout_def split: option.splits)

lemma effect_end_queued:
  "stats (setTimeout EffectEndCb d (t\<lparr>effectTimeoutRef := Some (nextHandle t)\<rparr>)) = stats t \<and>
   lastComboTimeRef (setTimeout EffectEndCb d (t\<lparr>effectTimeoutRef := Some (nextHandle t)\<rparr>))
     = lastComboTimeRef t \<and>
   specialFruits (setTimeout EffectEndCb d (t\<lparr>effectTimeoutRef := Some (nextHandle t)\<rparr>))
     = specialFruits t \<and>
   activeEffect (setTimeout EffectEndCb d (t\<lparr>effectTimeoutRef := Some (nextHandle t)\<rparr>))
     = activeEffect t \<and>
   timeScale (setTimeout EffectEndCb d (t\<lparr>effectTimeoutRef := Some (nextHandle t)\<rparr>))
     = timeScale t \<and>
   (\<exists>h. effectTimeoutRef (setTimeout EffectEndCb d (t\<lparr>effectTimeoutRef := Some (nextHandle t)\<rparr>))
          = Some h \<and>
        \<lparr>handle = h, delay = d, callback = EffectEndCb\<rparr>
          \<in> set (timers (setTimeout EffectEndCb d (t\<lparr>effectTimeoutRef := Some (nextHandle t)\<rparr>))))"
  by (simp add: setTimeout_def)

lemma activateFreeze_effect:
  "stats (activateFreeze s) = stats s \<and>
   lastComboTimeRef (activateFreeze s) = lastComboTimeRef s \<and>
   specialFruits (activateFreeze s) = specialFruits s \<and>
   activeEffect (activateFreeze s) = Some Freeze \<and>
   timeScale (activateFreeze s) = 0.2 \<and>
   (\<exists>h. effectTimeoutRef (activateFreeze s) = Some h \<and>
        \<lparr>handle = h, delay = 3000, callback = EffectEndCb\<rparr> \<in> set (timers (activateFreeze s)))"
proof -
  let ?s1 = "case effectTimeoutRef s of Some h \<Rightarrow> clearTimeout h s | None \<Rightarrow> s"
  let ?s2 = "?s1\<lparr>activeEffect := Some Freeze, timeScale := 0.2\<rparr>"
  have e: "activateFreeze s = setTimeout EffectEndCb 3000 (?s2\<lparr>effectTimeoutRef := Some (nextHandle ?s2)\<rparr>)"
    by (simp add: activateFreeze_def Let_def)
  have k: "stats ?s2 = stats s" "lastComboTimeRef ?s2 = lastComboTimeRef s"
    "specialFruits ?s2 = specialFruits s" "activeEffect ?s2 = Some Freeze" "timeScale ?s2 = 0.2"
    using clear_keep [of s] by simp_all
  show ?thesis
    unfolding e using effect_end_queued [of 3000 ?s2] k by simp
qed

lemma activateFrenzy_effect:
  "stats (activateFrenzy gs s) = stats s \<and>
   lastComboTimeRef (activateFrenzy gs s) = lastComboTimeRef s \<and>
   specialFruits (activateFrenzy gs s) = specialFruits s \<and>
   activeEffect (activateFrenzy gs s) = Some Frenzy \<and>
   timeScale (activateFrenzy gs s) = 0.3 \<and>
   (\<exists>h. effectTimeoutRef (activateFrenzy gs s) = Some h \<and>
        \<lparr>handle = h, delay = 4000, callback = EffectEndCb\<rparr>
          \<in> set (timers (activateFrenzy gs s)))"
proof -
  let ?s1 = "case effectTimeoutRef s of Some h \<Rightarrow> clearTimeout h s | None \<Rightarrow> s"
  let ?s2 = "?s1\<lparr>activeEffect := Some Frenzy, timeScale := 0.3\<rparr>"
  let ?s3 = "foldl (\<lambda>s i. setTimeout (FrenzySpawnCb gs) (int i * 80) s) ?s2 [0..<16]"
  have e: "activateFrenzy gs s = setTimeout EffectEndCb 4000 (?s3\<lparr>effectTimeoutRef := Some (nextHandle ?s3)\<rparr>)"
    by (simp add: activateFrenzy_def Let_def)
  have k2: "stats ?s2 = stats s" "lastComboTimeRef ?s2 = lastComboTimeRef s"
    "specialFruits ?s2 = specialFruits s" "activeEffect ?s2 = Some Frenzy" "timeScale ?s2 = 0.3"
    using clear_keep [of s] by simp_all
  have k: "stats ?s3 = stats s" "lastComboTimeRef ?s3 = lastComboTimeRef s"
    "specialFruits ?s3 = specialFruits s" "activeEffect ?s3 = Some Frenzy" "timeScale ?s3 = 0.3"
    using timeouts_keep [of "FrenzySpawnCb gs" "\<lambda>i. int i * 80" ?s2 "[0..<16]"] k2
    by simp_all
  show ?thesis
    unfolding e using effect_end_queued [of 4000 ?s3] k by simp
qed

text \<open>
  C9. Slicing a special fruit adds exactly 50 to the score, removes every special fruit
  with its id from the live collection, and activates its timed effect (the active effect,
  the time scale, and a pending timer that ends the effect after 4000 ms for frenzy and
  3000 ms for freeze). Lives, combo, maxCombo, fruitsSliced, the high score and the
  last-slice timestamp stay as they were, so the slice neither starts, extends nor resets
  a fruit combo chain.
\<close>

theorem sliceSpecialFruit_frame:
  "score (stats (sliceSpecialFruit gs special s)) = score (stats s) + 50 \<and>
   lives (stats (sliceSpecialFruit gs special s)) = lives (stats s) \<and>
   combo (stats (sliceSpecialFruit gs special s)) = combo (stats s) \<and>
   maxCombo (stats (sliceSpecialFruit gs special s)) = maxCombo (stats s) \<and>
   fruitsSliced (stats (sliceSpecialFruit gs special s)) = fruitsSliced (stats s) \<and>
   highScore (stats (sliceSpecialFruit gs special s)) = highScore (stats s) \<and>
   lastComboTimeRef (sliceSpecialFruit gs special s) = lastComboTimeRef s \<and>
   specialFruits (sliceSpecialFruit gs special s)
     = filter (\<lambda>x. ident x \<noteq> ident special) (specialFruits s) \<and>
   special \<notin> set (specialFruits (sliceSpecialFruit gs special s)) \<and>
   activeEffect (sliceSpecialFruit gs special s) = Some (specialType special) \<and>
   timeScale (sliceSpecialFruit gs special s)
     = (if specialType special = Frenzy then 0.3 else 0.2) \<and>
   (\<exists>h. effectTimeoutRef (sliceSpecialFruit gs special s) = Some h \<and>
        \<lparr>handle = h, delay = (if specialType special = Frenzy then 4000 else 3000),
         callback = EffectEndCb\<rparr> \<in> set (timers (sliceSpecialFruit gs special s)))"
proof (cases "specialType special")
  case Frenzy
  then show ?thesis
    using activateFrenzy_effect
      [of gs "s\<lparr>stats := (stats s)\<lparr>score := score (stats s) + 50\<rparr>,
                specialFruits := filter (\<lambda>x. ident x \<noteq> ident special) (specialFruits s)\<rparr>"]
    by (simp add: sliceSpecialFruit_def Let_def)
next
  case Freeze
  then show ?thesis
    using activateFreeze_effect
      [of "s\<lparr>stats := (stats s)\<lparr>score := score (stats s) + 50\<rparr>,
             specialFruits := filter (\<lambda>x. ident x \<noteq> ident special) (specialFruits s)\<rparr>"]
    by (simp add: sliceSpecialFruit_def Let_def)
qed

theorem sliceSpecialFruit_frame_witness:
  "score (stats (sliceSpecialFruit Playing iceFruit midCombo)) = 57 \<and>
   lives (stats (sliceSpecialFruit Playing iceFruit midCombo)) = 3 \<and>
   combo (stats (sliceSpecialFruit Playing iceFruit midCombo)) = 3 \<and>
   maxCombo (stats (sliceSpecialFruit Playing iceFruit midCombo)) = 3 \<and>
   fruitsSliced (stats (sliceSpecialFruit Playing iceFruit midCombo)) = 4 \<and>
   lastComboTimeRef (sliceSpecialFruit Playing iceFruit midCombo) = 900 \<and>
   specialFruits (sliceSpecialFruit Playing iceFruit midCombo) = [] \<and>
   activeEffect (sliceSpecialFruit Playing iceFruit midCombo) = Some Freeze \<and>
   timeScale (sliceSpecialFruit Playing iceFruit midCombo) = 0.2"
  using sliceSpecialFruit_frame [of Playing iceFruit midCombo]
  by (simp add: midCombo_def iceFruit_def game0_facts)

end
